theory Spec2Isabelle
  imports Complex_Main "HOL-Library.Word"
begin

unbundle bit_operations_syntax

section \<open>JavaScript values and errors\<close>

text \<open>
  A method that dereferences \<open>null\<close> or \<open>undefined\<close> throws a \<open>TypeError\<close>; a
  \<open>DataView\<close> write past the end of its buffer throws a \<open>RangeError\<close>. Both are values
  of the model: a function that can throw returns \<open>js_error + 'a\<close>, and the receiver of
  a throwing method is left as it was.
\<close>

datatype js_error = TypeError | RangeError

section \<open>Mesh instance identity (engine/model/meshinstance.js)\<close>

text \<open>
  Modelled from the spec: the class \<open>MeshInstanceId\<close> is imported by model.js but its file
  is not among the sources. The spec's MeshInstanceKey is "the pair (owning node identity,
  mesh-slot index)"; model.js builds it as \<open>new MeshInstanceId (node.GetId (), meshIndex)\<close>
  and reads its fields \<open>nodeId\<close> and \<open>meshIndex\<close>. \<open>GetKey\<close> is the value the
  physical groups use as Set and Map key; it is modelled as the pair itself.
\<close>

datatype MeshInstanceId = MeshInstanceId (nodeId: nat) (meshIndex: nat)

type_synonym MeshInstanceKey = "nat \<times> nat"

definition GetKey :: "MeshInstanceId \<Rightarrow> MeshInstanceKey" where
  "GetKey i = (nodeId i, meshIndex i)"

section \<open>Physical groups (class PhysicalGroup, engine/model/property.js)\<close>

text \<open>
  \<open>meshes\<close> is the JavaScript \<open>Set\<close> of keys, \<open>meshFaces\<close> the \<open>Map\<close> from keys to
  arrays of face indices. A method argument \<open>meshInstanceId\<close> that is \<open>null\<close> or has no
  \<open>GetKey\<close> method is \<open>None\<close>; a \<open>faceIndex\<close> that is \<open>undefined\<close> is \<open>None\<close>.
  Face indices are JavaScript numbers that the exporter later tests for \<open>< 0\<close>, so they
  are integers here.
\<close>

record PhysicalGroup =
  name :: string
  meshes :: "MeshInstanceKey set"
  meshFaces :: "MeshInstanceKey \<rightharpoonup> int list"
  color :: "(nat \<times> nat \<times> nat) option"

definition new_PhysicalGroup :: "string \<Rightarrow> PhysicalGroup" where
  "new_PhysicalGroup n = \<lparr>name = n, meshes = {}, meshFaces = Map.empty, color = None\<rparr>"

definition GetName :: "PhysicalGroup \<Rightarrow> string" where
  "GetName g = name g"

definition SetName :: "PhysicalGroup \<Rightarrow> string \<Rightarrow> PhysicalGroup" where
  "SetName g n = g\<lparr>name := n\<rparr>"

definition SetColor :: "PhysicalGroup \<Rightarrow> (nat \<times> nat \<times> nat) option \<Rightarrow> PhysicalGroup" where
  "SetColor g c = g\<lparr>color := c\<rparr>"

text \<open>The two statements shared by \<open>AddMesh\<close> and \<open>AddMeshWithIndex\<close>:
  \<open>this.meshes.add (meshKey)\<close>, then \<open>meshFaces.set (meshKey, [])\<close> unless the key is there.\<close>

definition touch :: "PhysicalGroup \<Rightarrow> MeshInstanceKey \<Rightarrow> PhysicalGroup" where
  "touch g meshKey =
     (let g1 = g\<lparr>meshes := insert meshKey (meshes g)\<rparr>
      in if meshFaces g1 meshKey = None
         then g1\<lparr>meshFaces := (meshFaces g1)(meshKey \<mapsto> [])\<rparr>
         else g1)"

text \<open>\<open>AddMesh\<close> has no guard: \<open>meshInstanceId.GetKey ()\<close> on \<open>null\<close> throws before
  anything is changed.\<close>

definition AddMesh :: "PhysicalGroup \<Rightarrow> MeshInstanceId option \<Rightarrow> js_error + PhysicalGroup" where
  "AddMesh g meshInstanceId =
     (case meshInstanceId of
        None \<Rightarrow> Inl TypeError
      | Some i \<Rightarrow> Inr (touch g (GetKey i)))"

definition AddMeshWithIndex ::
  "PhysicalGroup \<Rightarrow> MeshInstanceId option \<Rightarrow> int option \<Rightarrow> PhysicalGroup" where
  "AddMeshWithIndex g meshInstanceId faceIndex =
     (case meshInstanceId of
        None \<Rightarrow> g
      | Some i \<Rightarrow>
          (let meshKey = GetKey i; g2 = touch g meshKey
           in case faceIndex of
                None \<Rightarrow> g2
              | Some f \<Rightarrow>
                  (case meshFaces g2 meshKey of
                     None \<Rightarrow> g2
                   | Some faceIndices \<Rightarrow>
                       if f \<in> set faceIndices then g2
                       else g2\<lparr>meshFaces := (meshFaces g2)(meshKey \<mapsto> faceIndices @ [f])\<rparr>)))"

definition RemoveMesh :: "PhysicalGroup \<Rightarrow> MeshInstanceId option \<Rightarrow> js_error + PhysicalGroup" where
  "RemoveMesh g meshInstanceId =
     (case meshInstanceId of
        None \<Rightarrow> Inl TypeError
      | Some i \<Rightarrow>
          Inr (g\<lparr>meshes := meshes g - {GetKey i},
                 meshFaces := (meshFaces g)(GetKey i := None)\<rparr>))"

definition ContainsMesh :: "PhysicalGroup \<Rightarrow> MeshInstanceId option \<Rightarrow> bool" where
  "ContainsMesh g meshInstanceId =
     (case meshInstanceId of
        None \<Rightarrow> False
      | Some i \<Rightarrow> GetKey i \<in> meshes g)"

definition GetMeshes :: "PhysicalGroup \<Rightarrow> MeshInstanceKey set" where
  "GetMeshes g = meshes g"

definition GetMeshFaceIndices :: "PhysicalGroup \<Rightarrow> MeshInstanceId option \<Rightarrow> int list" where
  "GetMeshFaceIndices g meshInstanceId =
     (case meshInstanceId of
        None \<Rightarrow> []
      | Some i \<Rightarrow>
          (case meshFaces g (GetKey i) of
             None \<Rightarrow> []
           | Some faceIndices \<Rightarrow> faceIndices))"

definition Clear :: "PhysicalGroup \<Rightarrow> PhysicalGroup" where
  "Clear g = g\<lparr>meshes := {}, meshFaces := Map.empty\<rparr>"

text \<open>The two properties of a group the claims speak of.\<close>

definition faces_distinct :: "PhysicalGroup \<Rightarrow> bool" where
  "faces_distinct g = (\<forall>k faceIndices. meshFaces g k = Some faceIndices \<longrightarrow> distinct faceIndices)"

definition keys_agree :: "PhysicalGroup \<Rightarrow> bool" where
  "keys_agree g = (meshes g = dom (meshFaces g))"

text \<open>The states a group can reach: the constructor, then any sequence of its methods
  (a method that throws leaves the group as it was).\<close>

inductive group_reachable :: "PhysicalGroup \<Rightarrow> bool" where
  reach_new: "group_reachable (new_PhysicalGroup n)"
| reach_SetName: "group_reachable g \<Longrightarrow> group_reachable (SetName g n)"
| reach_SetColor: "group_reachable g \<Longrightarrow> group_reachable (SetColor g c)"
| reach_AddMesh: "group_reachable g \<Longrightarrow> AddMesh g i = Inr g' \<Longrightarrow> group_reachable g'"
| reach_AddMeshWithIndex: "group_reachable g \<Longrightarrow> group_reachable (AddMeshWithIndex g i f)"
| reach_RemoveMesh: "group_reachable g \<Longrightarrow> RemoveMesh g i = Inr g' \<Longrightarrow> group_reachable g'"
| reach_Clear: "group_reachable g \<Longrightarrow> group_reachable (Clear g)"


section \<open>Geometry store and scene graph\<close>

text \<open>
  Modelled from the spec: the classes \<open>Coord3D\<close>, \<open>Mesh\<close>, \<open>Node\<close> and \<open>MeshInstance\<close>
  are imported by model.js and by the exporters, but their files are not among the
  sources. The spec's data model gives their content: a mesh is an ordered sequence of
  vertex positions, optional normals and texture coordinates, and an ordered sequence of
  triangles, each holding three vertex indices, three normal indices, a material index
  and a curve tag (the eight arguments the exporters pass to \<open>AddTriangle\<close>); a node has
  a unique identity, a name, an ordered list of owned child nodes and an ordered list of
  indices into the model's mesh list. Transformations, vertex colours and lines are left
  out: no function modelled here reads them. A material is carried by reference and never
  inspected, so it is represented by its name.
\<close>

datatype Coord3D = Coord3D (coord_x: real) (coord_y: real) (coord_z: real)

datatype Triangle =
  Triangle (v0: nat) (v1: nat) (v2: nat) (n0: nat) (n1: nat) (n2: nat) (mat: nat) (curve: nat)

type_synonym Material = string

record Mesh =
  vertices :: "Coord3D list"
  normals :: "Coord3D list"
  textureUVs :: "(real \<times> real) list"
  triangles :: "Triangle list"

definition new_Mesh :: Mesh where
  "new_Mesh = \<lparr>vertices = [], normals = [], textureUVs = [], triangles = []\<rparr>"

definition AddVertex :: "Mesh \<Rightarrow> Coord3D \<Rightarrow> Mesh" where
  "AddVertex m vertex = m\<lparr>vertices := vertices m @ [vertex]\<rparr>"

definition AddNormal :: "Mesh \<Rightarrow> Coord3D \<Rightarrow> Mesh" where
  "AddNormal m normal = m\<lparr>normals := normals m @ [normal]\<rparr>"

definition AddTextureUV :: "Mesh \<Rightarrow> real \<times> real \<Rightarrow> Mesh" where
  "AddTextureUV m uv = m\<lparr>textureUVs := textureUVs m @ [uv]\<rparr>"

definition AddTriangle :: "Mesh \<Rightarrow> Triangle \<Rightarrow> Mesh" where
  "AddTriangle m triangle = m\<lparr>triangles := triangles m @ [triangle]\<rparr>"

definition TriangleCount :: "Mesh \<Rightarrow> nat" where
  "TriangleCount m = length (triangles m)"

text \<open>An array read: \<open>undefined\<close> (here \<open>None\<close>) outside the array.\<close>

definition array_get :: "'a list \<Rightarrow> nat \<Rightarrow> 'a option" where
  "array_get xs i = (if i < length xs then Some (xs ! i) else None)"

definition GetTriangle :: "Mesh \<Rightarrow> nat \<Rightarrow> Triangle option" where
  "GetTriangle m i = array_get (triangles m) i"

datatype Node =
  Node (GetId: nat) (node_name: string) (meshIndices: "nat list") (childNodes: "Node list")

text \<open>\<open>Enumerate\<close> calls the processor on the node itself, then on its children in order.\<close>

fun Enumerate :: "Node \<Rightarrow> Node list" where
  "Enumerate (Node i n ms cs) = Node i n ms cs # concat (map Enumerate cs)"

definition MeshIndexCount :: "Node \<Rightarrow> nat" where
  "MeshIndexCount node = length (meshIndices node)"

datatype MeshInstance =
  MeshInstance (instance_id: MeshInstanceId) (instance_node: Node) (instance_mesh: "Mesh option")

text \<open>\<open>MeshInstance.TriangleCount\<close> asks its mesh; a mesh that is \<open>undefined\<close> (a mesh
  index outside the model's mesh list) makes the call throw.\<close>

definition MeshInstance_TriangleCount :: "MeshInstance \<Rightarrow> js_error + nat" where
  "MeshInstance_TriangleCount mi =
     (case instance_mesh mi of None \<Rightarrow> Inl TypeError | Some m \<Rightarrow> Inr (TriangleCount m))"

section \<open>The model (class Model, engine/model/model.js)\<close>

text \<open>
  \<open>nextNodeId\<close> stands for the id generator the root node shares with the nodes added
  below it (modelled from the spec: node identities are unique); the root of a new model
  has id 0.
\<close>

record Model =
  root :: Node
  nextNodeId :: nat
  materials :: "Material list"
  model_meshes :: "Mesh list"
  physicalGroups :: "PhysicalGroup list"

definition new_Model :: Model where
  "new_Model = \<lparr>root = Node 0 [] [] [], nextNodeId = 1, materials = [],
                 model_meshes = [], physicalGroups = []\<rparr>"

definition MaterialCount :: "Model \<Rightarrow> nat" where
  "MaterialCount M = length (materials M)"

definition MeshCount :: "Model \<Rightarrow> nat" where
  "MeshCount M = length (model_meshes M)"

definition MeshInstanceCount :: "Model \<Rightarrow> nat" where
  "MeshInstanceCount M = sum_list (map MeshIndexCount (Enumerate (root M)))"

definition AddMaterial :: "Model \<Rightarrow> Material \<Rightarrow> Model \<times> nat" where
  "AddMaterial M material =
     (M\<lparr>materials := materials M @ [material]\<rparr>, length (materials M))"

definition Model_AddMesh :: "Model \<Rightarrow> Mesh \<Rightarrow> Model \<times> nat" where
  "Model_AddMesh M mesh =
     (M\<lparr>model_meshes := model_meshes M @ [mesh]\<rparr>, length (model_meshes M))"

definition GetMesh :: "Model \<Rightarrow> nat \<Rightarrow> Mesh option" where
  "GetMesh M index = array_get (model_meshes M) index"

text \<open>
  The loop of \<open>RemoveMesh\<close> over one node's \<open>meshIndices\<close>, with its loop variable \<open>i\<close>:
  an entry equal to \<open>index\<close> is spliced out and \<open>i\<close> stays (\<open>i -= 1\<close>, then the loop's
  \<open>i++\<close>); an entry above \<open>index\<close> is decremented in place.
\<close>

function RemoveMesh_loop :: "nat \<Rightarrow> nat \<Rightarrow> nat list \<Rightarrow> nat list" where
  "RemoveMesh_loop index i ms =
     (if i < length ms then
        (if ms ! i = index then RemoveMesh_loop index i (take i ms @ drop (Suc i) ms)
         else if ms ! i > index then RemoveMesh_loop index (Suc i) (ms[i := ms ! i - 1])
         else RemoveMesh_loop index (Suc i) ms)
      else ms)"
  by pat_completeness auto
termination
  by (relation "measure (\<lambda>(index, i, ms). length ms - i)") auto

declare RemoveMesh_loop.simps [simp del]

fun RemoveMesh_node :: "nat \<Rightarrow> Node \<Rightarrow> Node" where
  "RemoveMesh_node index (Node i n ms cs) =
     Node i n (RemoveMesh_loop index 0 ms) (map (RemoveMesh_node index) cs)"

text \<open>\<open>this.meshes.splice (index, 1)\<close>, then the loop on every node. The index is an
  array index (a natural number); past the end the splice removes nothing.\<close>

definition Model_RemoveMesh :: "Model \<Rightarrow> nat \<Rightarrow> Model" where
  "Model_RemoveMesh M index =
     M\<lparr>model_meshes := take index (model_meshes M) @ drop (Suc index) (model_meshes M),
       root := RemoveMesh_node index (root M)\<rparr>"

definition EnumerateMeshInstances :: "Model \<Rightarrow> MeshInstance list" where
  "EnumerateMeshInstances M =
     concat (map (\<lambda>node. map (\<lambda>meshIndex.
         MeshInstance (MeshInstanceId (GetId node) meshIndex) node (GetMesh M meshIndex))
       (meshIndices node)) (Enumerate (root M)))"

text \<open>The counting loops: \<open>count += meshInstance.TriangleCount ()\<close> over the instances.\<close>

fun count_loop :: "('a \<Rightarrow> js_error + nat) \<Rightarrow> 'a list \<Rightarrow> nat \<Rightarrow> js_error + nat" where
  "count_loop f [] count = Inr count"
| "count_loop f (a # rest) count =
     (case f a of Inl e \<Rightarrow> Inl e | Inr n \<Rightarrow> count_loop f rest (count + n))"

definition Model_TriangleCount :: "Model \<Rightarrow> js_error + nat" where
  "Model_TriangleCount M = count_loop MeshInstance_TriangleCount (EnumerateMeshInstances M) 0"


subsection \<open>Physical group management\<close>

definition PhysicalGroupCount :: "Model \<Rightarrow> nat" where
  "PhysicalGroupCount M = length (physicalGroups M)"


definition GetPhysicalGroup :: "Model \<Rightarrow> nat \<Rightarrow> PhysicalGroup option" where
  "GetPhysicalGroup M index = array_get (physicalGroups M) index"


definition RemovePhysicalGroup :: "Model \<Rightarrow> int \<Rightarrow> Model \<times> bool" where
  "RemovePhysicalGroup M index =
     (if index \<ge> 0 \<and> index < int (length (physicalGroups M))
      then (M\<lparr>physicalGroups := take (nat index) (physicalGroups M)
                                  @ drop (Suc (nat index)) (physicalGroups M)\<rparr>, True)
      else (M, False))"

fun remove_first_named :: "string \<Rightarrow> PhysicalGroup list \<Rightarrow> (PhysicalGroup list) option" where
  "remove_first_named n [] = None"
| "remove_first_named n (g # gs) =
     (if GetName g = n then Some gs
      else map_option (\<lambda>gs'. g # gs') (remove_first_named n gs))"

definition RemovePhysicalGroupByName :: "Model \<Rightarrow> string \<Rightarrow> Model \<times> bool" where
  "RemovePhysicalGroupByName M n =
     (case remove_first_named n (physicalGroups M) of
        None \<Rightarrow> (M, False)
      | Some gs \<Rightarrow> (M\<lparr>physicalGroups := gs\<rparr>, True))"

definition GetGroupsByMeshInstanceId :: "Model \<Rightarrow> MeshInstanceId option \<Rightarrow> PhysicalGroup list" where
  "GetGroupsByMeshInstanceId M meshInstanceId =
     filter (\<lambda>group. ContainsMesh group meshInstanceId) (physicalGroups M)"

text \<open>What identifies the placed occurrences of a model: each instance's key together
  with the mesh it places, in enumeration order.\<close>

definition InstanceKeys :: "Model \<Rightarrow> (MeshInstanceKey \<times> Mesh option) list" where
  "InstanceKeys M =
     map (\<lambda>mi. (GetKey (instance_id mi), instance_mesh mi)) (EnumerateMeshInstances M)"

text \<open>What \<open>RemoveMesh\<close> makes of a mesh index \<open>j\<close> other than the removed one, and of
  the key of an instance of mesh \<open>j\<close>.\<close>

definition shifted_index :: "nat \<Rightarrow> nat \<Rightarrow> nat" where
  "shifted_index index j = (if j > index then j - 1 else j)"

definition shifted_key :: "nat \<Rightarrow> MeshInstanceKey \<Rightarrow> MeshInstanceKey" where
  "shifted_key index k = (fst k, shifted_index index (snd k))"

section \<open>The Create Physical Group dialog (website/website.js)\<close>


fun AddFaces_loop :: "PhysicalGroup \<Rightarrow> MeshInstanceId \<Rightarrow> nat \<Rightarrow> nat \<Rightarrow> PhysicalGroup" where
  "AddFaces_loop g meshId i 0 = g"
| "AddFaces_loop g meshId i (Suc remaining) =
     AddFaces_loop (AddMeshWithIndex g (Some meshId) (Some (int i))) meshId (Suc i) remaining"




section \<open>Example inputs: a model with two meshes\<close>

text \<open>Two different meshes placed by the root node, and a group \<open>inlet\<close> that holds the
  whole instance of the first.\<close>

definition meshA :: Mesh where
  "meshA = AddTriangle new_Mesh (Triangle 0 1 2 0 0 0 0 0)"

definition meshB :: Mesh where
  "meshB = AddTriangle (AddTriangle new_Mesh (Triangle 0 2 3 0 0 0 0 1)) (Triangle 3 2 1 0 0 0 0 1)"

definition two_mesh_model :: Model where
  "two_mesh_model =
     \<lparr>root = Node 0 [] [0, 1] [], nextNodeId = 1, materials = [],
      model_meshes = [meshA, meshB],
      physicalGroups = [touch (new_PhysicalGroup ''inlet'') (0, 0)]\<rparr>"


section \<open>Buffers and writers (engine/io)\<close>

type_synonym byte = "8 word"

text \<open>
  Modelled from the spec: \<open>BinaryWriter\<close> (engine/io/binarywriter.js) is used by the
  exporters but is not among the sources. The spec fixes what the exporters need of it:
  unsigned integers are written little-endian (the exporters construct every writer with
  the little-endian flag), a float32 takes four bytes, and an artifact's buffer has exactly
  the length the writer was created with. The writer owns a zero-filled buffer of
  \<open>byteLength\<close> bytes and a position; the exporters only ever write forward, so the
  buffer is the bytes \<open>written\<close> so far followed by zeros. A write that would pass the end
  of the buffer throws (the \<open>DataView\<close>'s \<open>RangeError\<close>) and writes nothing.
\<close>

record BinaryWriter =
  byteLength :: nat
  written :: "byte list"

definition new_BinaryWriter :: "nat \<Rightarrow> BinaryWriter" where
  "new_BinaryWriter n = \<lparr>byteLength = n, written = []\<rparr>"

definition GetPosition :: "BinaryWriter \<Rightarrow> nat" where
  "GetPosition w = length (written w)"

definition WriteArrayBuffer :: "BinaryWriter \<Rightarrow> byte list \<Rightarrow> js_error + BinaryWriter" where
  "WriteArrayBuffer w bs =
     (if length (written w) + length bs \<le> byteLength w
      then Inr (w\<lparr>written := written w @ bs\<rparr>)
      else Inl RangeError)"

definition le16 :: "16 word \<Rightarrow> byte list" where
  "le16 v = [ucast v, ucast (drop_bit 8 v)]"

definition le32 :: "32 word \<Rightarrow> byte list" where
  "le32 v = [ucast v, ucast (drop_bit 8 v), ucast (drop_bit 16 v), ucast (drop_bit 24 v)]"

text \<open>The integer writers take a JavaScript number that is a non-negative integer; the
  \<open>DataView\<close> stores it modulo the width of the field.\<close>

definition WriteUnsignedCharacter8 :: "BinaryWriter \<Rightarrow> nat \<Rightarrow> js_error + BinaryWriter" where
  "WriteUnsignedCharacter8 w val = WriteArrayBuffer w [of_nat val]"

definition WriteUnsignedInteger16 :: "BinaryWriter \<Rightarrow> nat \<Rightarrow> js_error + BinaryWriter" where
  "WriteUnsignedInteger16 w val = WriteArrayBuffer w (le16 (of_nat val))"

definition WriteUnsignedInteger32 :: "BinaryWriter \<Rightarrow> nat \<Rightarrow> js_error + BinaryWriter" where
  "WriteUnsignedInteger32 w val = WriteArrayBuffer w (le32 (of_nat val))"

definition GetBuffer :: "BinaryWriter \<Rightarrow> byte list" where
  "GetBuffer w = written w @ replicate (byteLength w - length (written w)) 0"

text \<open>A writer whose position has not passed the end of its buffer.\<close>

definition writer_ok :: "BinaryWriter \<Rightarrow> bool" where
  "writer_ok w = (length (written w) \<le> byteLength w)"

text \<open>Sequencing of calls that can throw: the first exception ends the sequence.\<close>

definition and_then :: "js_error + 'a \<Rightarrow> ('a \<Rightarrow> js_error + 'b) \<Rightarrow> js_error + 'b" where
  "and_then r f = (case r of Inl e \<Rightarrow> Inl e | Inr a \<Rightarrow> f a)"

text \<open>
  Floating point is not interpreted. A coordinate is a real number; what the platform
  does with it is a parameter of the exporters: \<open>float32\<close> is the IEEE-754 single
  precision bit pattern that \<open>DataView.setFloat32\<close> stores for a number,
  \<open>numberToString\<close> is the text \<open>Array.join\<close> gives a number, and \<open>facetOf\<close> is the
  geometry \<open>EnumerateTrianglesWithNormals\<close> hands to its callback for one triangle of
  one mesh instance: the three corner positions in world space and the computed normal.
\<close>

datatype Facet = Facet (facet_v0: Coord3D) (facet_v1: Coord3D) (facet_v2: Coord3D) (facet_normal: Coord3D)

record FloatOps =
  float32 :: "real \<Rightarrow> 32 word"
  numberToString :: "real \<Rightarrow> string"
  facetOf :: "MeshInstance \<Rightarrow> Triangle \<Rightarrow> Facet"

definition WriteFloat32 :: "FloatOps \<Rightarrow> BinaryWriter \<Rightarrow> real \<Rightarrow> js_error + BinaryWriter" where
  "WriteFloat32 ops w val = WriteArrayBuffer w (le32 (float32 ops val))"

text \<open>
  Modelled from the spec: \<open>TextWriter\<close> (engine/io/textwriter.js) is not among the
  sources. It accumulates text; \<open>WriteLine\<close> writes the current indentation (two spaces per
  level), the string and a line feed; \<open>WriteArrayLine\<close> joins its items with single
  spaces. A string of the model is a list of bytes, the UTF-8 form of the JavaScript
  string, so \<open>Utf8StringToArrayBuffer\<close> only changes the type.
\<close>

record TextWriter =
  writer_text :: string
  indentation :: int

definition new_TextWriter :: TextWriter where
  "new_TextWriter = \<lparr>writer_text = [], indentation = 0\<rparr>"

definition line_feed :: string where
  "line_feed = [CHR 0x0A]"

definition WriteLine :: "TextWriter \<Rightarrow> string \<Rightarrow> TextWriter" where
  "WriteLine w str =
     w\<lparr>writer_text := writer_text w @ concat (replicate (nat (indentation w)) ''  '')
                        @ str @ line_feed\<rparr>"

fun join_items :: "string list \<Rightarrow> string" where
  "join_items [] = []"
| "join_items [a] = a"
| "join_items (a # b # rest) = a @ '' '' @ join_items (b # rest)"

definition WriteArrayLine :: "TextWriter \<Rightarrow> string list \<Rightarrow> TextWriter" where
  "WriteArrayLine w arr = WriteLine w (join_items arr)"

definition Indent :: "TextWriter \<Rightarrow> int \<Rightarrow> TextWriter" where
  "Indent w diff = w\<lparr>indentation := indentation w + diff\<rparr>"

definition GetText :: "TextWriter \<Rightarrow> string" where
  "GetText w = writer_text w"

definition Utf8StringToArrayBuffer :: "string \<Rightarrow> byte list" where
  "Utf8StringToArrayBuffer s = map (\<lambda>c. of_nat (of_char c)) s"

section \<open>Exported files and the exporter's view of a model (engine/export)\<close>

text \<open>Class \<open>ExportedFile\<close> of exporterbase.js; \<open>content\<close> is \<open>null\<close> until it is set.\<close>

record ExportedFile =
  file_name :: string
  content :: "byte list option"

definition new_ExportedFile :: "string \<Rightarrow> ExportedFile" where
  "new_ExportedFile n = \<lparr>file_name = n, content = None\<rparr>"

definition SetTextContent :: "ExportedFile \<Rightarrow> string \<Rightarrow> ExportedFile" where
  "SetTextContent f c =
     (let c1 = (if c = [] then '' '' else c)
      in f\<lparr>content := Some (Utf8StringToArrayBuffer c1)\<rparr>)"

definition SetBufferContent :: "ExportedFile \<Rightarrow> byte list \<Rightarrow> ExportedFile" where
  "SetBufferContent f c =
     (let c1 = (if c = [] then [32] else c)
      in f\<lparr>content := Some c1\<rparr>)"

datatype FileFormat = Text | Binary

text \<open>
  The settings object of an export. A property that is absent (\<open>undefined\<close>) is \<open>None\<close>:
  the exporters test \<open>exportSelectedOnly === true\<close>, \<open>exportRemainder !== false\<close>,
  \<open>exportSeparateFiles !== false\<close>, the truthiness of \<open>exportPhysicalGroups\<close>, and read
  \<open>selectedGroups || []\<close>. The rotation of the settings is part of \<open>facetOf\<close>.
\<close>

record ExporterSettings =
  isMeshVisible :: "MeshInstanceId \<Rightarrow> bool"
  exportPhysicalGroups :: "bool option"
  selectedGroups :: "nat list option"
  exportSelectedOnly :: "bool option"
  exportRemainder :: "bool option"
  exportSeparateFiles :: "bool option"

definition new_ExporterSettings :: ExporterSettings where
  "new_ExporterSettings =
     \<lparr>isMeshVisible = (\<lambda>meshInstanceId. True), exportPhysicalGroups = None,
      selectedGroups = None, exportSelectedOnly = None, exportRemainder = None,
      exportSeparateFiles = None\<rparr>"

text \<open>
  Modelled from the spec: \<open>ExporterModel\<close> (engine/export/exportermodel.js) is not among
  the sources. The spec's export filter "exposes the same enumeration/counting surface as
  the Scene Graph but restricted to instances/triangles passing the visibility
  predicate": its instances are the model's instances that the predicate of the settings
  accepts, its triangle count is the sum of their meshes' triangle counts, and
  \<open>EnumerateTrianglesWithNormals\<close> calls back once for every triangle of every such
  instance, in order. A mesh that is \<open>undefined\<close> makes counting and enumerating throw.
\<close>

record ExporterModel =
  model :: Model
  settings :: ExporterSettings

definition new_ExporterModel :: "Model \<Rightarrow> ExporterSettings \<Rightarrow> ExporterModel" where
  "new_ExporterModel M s = \<lparr>model = M, settings = s\<rparr>"

definition GetModel :: "ExporterModel \<Rightarrow> Model" where
  "GetModel em = model em"

definition EM_EnumerateMeshInstances :: "ExporterModel \<Rightarrow> MeshInstance list" where
  "EM_EnumerateMeshInstances em =
     filter (\<lambda>mi. isMeshVisible (settings em) (instance_id mi)) (EnumerateMeshInstances (model em))"

definition EM_MeshInstanceCount :: "ExporterModel \<Rightarrow> nat" where
  "EM_MeshInstanceCount em = length (EM_EnumerateMeshInstances em)"

definition EM_TriangleCount :: "ExporterModel \<Rightarrow> js_error + nat" where
  "EM_TriangleCount em = count_loop MeshInstance_TriangleCount (EM_EnumerateMeshInstances em) 0"

fun facets_loop :: "FloatOps \<Rightarrow> MeshInstance list \<Rightarrow> js_error + Facet list" where
  "facets_loop ops [] = Inr []"
| "facets_loop ops (mi # rest) =
     (case instance_mesh mi of
        None \<Rightarrow> Inl TypeError
      | Some m \<Rightarrow>
          and_then (facets_loop ops rest)
            (\<lambda>more. Inr (map (facetOf ops mi) (triangles m) @ more)))"

definition EM_EnumerateTrianglesWithNormals :: "FloatOps \<Rightarrow> ExporterModel \<Rightarrow> js_error + Facet list" where
  "EM_EnumerateTrianglesWithNormals ops em = facets_loop ops (EM_EnumerateMeshInstances em)"


section \<open>The STL exporter (class ExporterStl, engine/export/exporterstl.js)\<close>

definition ExporterStl_CanExport :: "FileFormat \<Rightarrow> string \<Rightarrow> bool" where
  "ExporterStl_CanExport format extension = ((format = Text \<or> format = Binary) \<and> extension = ''stl'')"

subsection \<open>Text variant\<close>

definition WriteFacetText :: "FloatOps \<Rightarrow> TextWriter \<Rightarrow> Facet \<Rightarrow> TextWriter" where
  "WriteFacetText ops w0 f =
     (let str = numberToString ops;
          vertex_line = (\<lambda>w c. WriteArrayLine w
             [''vertex'', str (coord_x c), str (coord_y c), str (coord_z c)]);
          w1 = WriteArrayLine w0 [''facet'', ''normal'', str (coord_x (facet_normal f)),
                 str (coord_y (facet_normal f)), str (coord_z (facet_normal f))];
          w2 = Indent w1 1;
          w3 = WriteLine w2 ''outer loop'';
          w4 = Indent w3 1;
          w5 = vertex_line w4 (facet_v0 f);
          w6 = vertex_line w5 (facet_v1 f);
          w7 = vertex_line w6 (facet_v2 f);
          w8 = Indent w7 (- 1);
          w9 = WriteLine w8 ''endloop'';
          w10 = Indent w9 (- 1)
      in WriteLine w10 ''endfacet'')"

text \<open>\<open>ExportTextForModel\<close> reads \<open>exporterModel.TriangleCount ()\<close> for its log line
  before it enumerates, so a model with a dangling mesh index makes it throw there.\<close>

definition ExportTextForModel ::
  "FloatOps \<Rightarrow> ExporterModel \<Rightarrow> ExportedFile list \<Rightarrow> string \<Rightarrow> string
     \<Rightarrow> js_error + ExportedFile list" where
  "ExportTextForModel ops exporterModel files fileName modelName =
     (let stlFile = new_ExportedFile fileName;
          stlWriter = WriteLine new_TextWriter (''solid '' @ modelName)
      in and_then (EM_TriangleCount exporterModel) (\<lambda>logged.
         and_then (EM_EnumerateTrianglesWithNormals ops exporterModel) (\<lambda>facets.
           (let stlWriter1 = foldl (WriteFacetText ops) stlWriter facets;
                stlWriter2 = WriteLine stlWriter1 (''endsolid '' @ modelName);
                textContent = GetText stlWriter2
            in Inr (files @ [SetTextContent stlFile textContent])))))"

definition ExportText :: "FloatOps \<Rightarrow> ExporterModel \<Rightarrow> ExportedFile list \<Rightarrow> js_error + ExportedFile list" where
  "ExportText ops exporterModel files =
     ExportTextForModel ops exporterModel files ''model.stl'' ''Model''"

subsection \<open>Binary variant\<close>

text \<open>The callback of the binary export, statement by statement: the normal, the three
  corners \<open>v0\<close>, \<open>v1\<close>, \<open>v2\<close>, each as three \<open>WriteFloat32\<close> of \<open>x\<close>, \<open>y\<close>, \<open>z\<close>,
  then \<open>WriteUnsignedInteger16 (0)\<close>.\<close>

definition WriteFacet :: "FloatOps \<Rightarrow> BinaryWriter \<Rightarrow> Facet \<Rightarrow> js_error + BinaryWriter" where
  "WriteFacet ops stlWriter f =
     and_then (WriteFloat32 ops stlWriter (coord_x (facet_normal f))) (\<lambda>w1.
     and_then (WriteFloat32 ops w1 (coord_y (facet_normal f))) (\<lambda>w2.
     and_then (WriteFloat32 ops w2 (coord_z (facet_normal f))) (\<lambda>w3.
     and_then (WriteFloat32 ops w3 (coord_x (facet_v0 f))) (\<lambda>w4.
     and_then (WriteFloat32 ops w4 (coord_y (facet_v0 f))) (\<lambda>w5.
     and_then (WriteFloat32 ops w5 (coord_z (facet_v0 f))) (\<lambda>w6.
     and_then (WriteFloat32 ops w6 (coord_x (facet_v1 f))) (\<lambda>w7.
     and_then (WriteFloat32 ops w7 (coord_y (facet_v1 f))) (\<lambda>w8.
     and_then (WriteFloat32 ops w8 (coord_z (facet_v1 f))) (\<lambda>w9.
     and_then (WriteFloat32 ops w9 (coord_x (facet_v2 f))) (\<lambda>w10.
     and_then (WriteFloat32 ops w10 (coord_y (facet_v2 f))) (\<lambda>w11.
     and_then (WriteFloat32 ops w11 (coord_z (facet_v2 f))) (\<lambda>w12.
       WriteUnsignedInteger16 w12 0))))))))))))"

fun WriteFacets :: "FloatOps \<Rightarrow> BinaryWriter \<Rightarrow> Facet list \<Rightarrow> js_error + BinaryWriter" where
  "WriteFacets ops w [] = Inr w"
| "WriteFacets ops w (f # rest) =
     and_then (WriteFacet ops w f) (\<lambda>w1. WriteFacets ops w1 rest)"

text \<open>\<open>for (let i = 0; i < count; i++) writer.WriteUnsignedCharacter8 (char)\<close>: the header
  loop of the STL exporter and the function \<open>WriteCharacters\<close> of the glTF exporter.\<close>

fun WriteCharacters :: "BinaryWriter \<Rightarrow> nat \<Rightarrow> nat \<Rightarrow> js_error + BinaryWriter" where
  "WriteCharacters w char 0 = Inr w"
| "WriteCharacters w char (Suc n) =
     and_then (WriteUnsignedCharacter8 w char) (\<lambda>w1. WriteCharacters w1 char n)"

text \<open>The guard \<open>if (triangleCount <= 0) triangleCount = 0\<close> changes nothing: a count
  is never negative.\<close>

definition ExportBinaryForModel ::
  "FloatOps \<Rightarrow> ExporterModel \<Rightarrow> ExportedFile list \<Rightarrow> string \<Rightarrow> js_error + ExportedFile list" where
  "ExportBinaryForModel ops exporterModel files fileName =
     (let stlFile = new_ExportedFile fileName
      in and_then (EM_TriangleCount exporterModel) (\<lambda>triangleCount.
           (let headerSize = 80;
                fullByteLength = headerSize + 4 + triangleCount * 50;
                stlWriter = new_BinaryWriter fullByteLength
            in and_then (WriteCharacters stlWriter 0 headerSize) (\<lambda>w1.
               and_then (WriteUnsignedInteger32 w1 triangleCount) (\<lambda>w2.
               and_then (EM_EnumerateTrianglesWithNormals ops exporterModel) (\<lambda>facets.
               and_then (WriteFacets ops w2 facets) (\<lambda>w3.
                 Inr (files @ [SetBufferContent stlFile (GetBuffer w3)]))))))))"

definition ExportBinary :: "FloatOps \<Rightarrow> ExporterModel \<Rightarrow> ExportedFile list \<Rightarrow> js_error + ExportedFile list" where
  "ExportBinary ops exporterModel files = ExportBinaryForModel ops exporterModel files ''model.stl''"

subsection \<open>Entry point\<close>

text \<open>
  \<open>ExportContent\<close> first logs the model's statistics, which evaluates
  \<open>model.TriangleCount ()\<close>. With \<open>exportPhysicalGroups\<close> set and at least one group in
  the model it hands the export to a server over HTTP (\<open>ExportPhysicalGroupsWithFreeCAD\<close>);
  that exchange is outside the model and is the outcome \<open>ServerExport\<close>. Otherwise it
  writes the whole model into one file and finishes.
\<close>

datatype ExportOutcome = Finished "ExportedFile list" | ServerExport

definition ExporterStl_ExportContent ::
  "FloatOps \<Rightarrow> ExporterModel \<Rightarrow> FileFormat \<Rightarrow> ExportedFile list \<Rightarrow> js_error + ExportOutcome" where
  "ExporterStl_ExportContent ops exporterModel format files =
     (let M = GetModel exporterModel;
          hasPhysicalGroups = (length (physicalGroups M) > 0)
      in and_then (Model_TriangleCount M) (\<lambda>logged.
           if exportPhysicalGroups (settings exporterModel) = Some True \<and> hasPhysicalGroups
           then Inr ServerExport
           else and_then
                  (if format = Text then ExportText ops exporterModel files
                   else ExportBinary ops exporterModel files)
                  (\<lambda>files1. Inr (Finished files1))))"

subsection \<open>What the binary variant must look like\<close>

text \<open>
  The record of one triangle in the spec's words: "3 x float32 normal, 3 x (3 x float32)
  vertex positions, uint16 attribute byte count (always 0)", all little-endian. These two
  definitions follow the spec, not the exporter: \<open>facet_words\<close> are the twelve float32
  patterns, the normal first and then the corners in their order, and \<open>facet_bytes\<close> are
  the fifty bytes of the record.
\<close>

definition facet_words :: "FloatOps \<Rightarrow> Facet \<Rightarrow> 32 word list" where
  "facet_words ops f =
     [float32 ops (coord_x (facet_normal f)), float32 ops (coord_y (facet_normal f)),
      float32 ops (coord_z (facet_normal f)),
      float32 ops (coord_x (facet_v0 f)), float32 ops (coord_y (facet_v0 f)),
      float32 ops (coord_z (facet_v0 f)),
      float32 ops (coord_x (facet_v1 f)), float32 ops (coord_y (facet_v1 f)),
      float32 ops (coord_z (facet_v1 f)),
      float32 ops (coord_x (facet_v2 f)), float32 ops (coord_y (facet_v2 f)),
      float32 ops (coord_z (facet_v2 f))]"

definition facet_bytes :: "FloatOps \<Rightarrow> Facet \<Rightarrow> byte list" where
  "facet_bytes ops f = concat (map le32 (facet_words ops f)) @ [0, 0]"

text \<open>
  Modelled from the spec: a reader of the binary variant (the sources hold no STL
  importer). It follows the spec's layout: 80 header bytes, a little-endian uint32
  triangle count, then one 50-byte record per triangle; a file whose length is not
  80 + 4 + 50 x count is refused. A parsed triangle is its twelve float32 bit patterns.
\<close>

definition read_le32 :: "byte list \<Rightarrow> 32 word" where
  "read_le32 bs =
     (case bs of
        [b0, b1, b2, b3] \<Rightarrow>
          ucast b0 OR push_bit 8 (ucast b1) OR push_bit 16 (ucast b2) OR push_bit 24 (ucast b3)
      | _ \<Rightarrow> 0)"

fun read_words :: "nat \<Rightarrow> byte list \<Rightarrow> 32 word list" where
  "read_words 0 bs = []"
| "read_words (Suc k) bs = read_le32 (take 4 bs) # read_words k (drop 4 bs)"

fun parse_facets :: "nat \<Rightarrow> byte list \<Rightarrow> 32 word list list" where
  "parse_facets 0 bs = []"
| "parse_facets (Suc n) bs = read_words 12 (take 50 bs) # parse_facets n (drop 50 bs)"

definition ParseBinaryStl :: "byte list \<Rightarrow> 32 word list list option" where
  "ParseBinaryStl bs =
     (if length bs < 84 then None
      else (let n = unat (read_le32 (take 4 (drop 80 bs)))
            in if length bs \<noteq> 80 + 4 + 50 * n then None
               else Some (parse_facets n (drop 84 bs))))"


section \<open>Export of physical groups by the STL exporter\<close>

subsection \<open>Building nodes and copying meshes\<close>

text \<open>
  Modelled from the spec: \<open>Node\<close>'s methods \<open>SetName\<close>, \<open>AddMeshIndex\<close>, \<open>AddChildNode\<close>
  and \<open>EnumerateMeshIndices\<close> (node.js is not among the sources). A node added below
  the root takes the next identity of the root's generator; \<open>EnumerateMeshIndices\<close> visits
  a node's own mesh indices, then those of its children.
\<close>

definition new_Node :: Node where
  "new_Node = Node 0 [] [] []"

definition Node_SetName :: "Node \<Rightarrow> string \<Rightarrow> Node" where
  "Node_SetName node n = Node (GetId node) n (meshIndices node) (childNodes node)"

definition AddMeshIndex :: "Node \<Rightarrow> nat \<Rightarrow> Node" where
  "AddMeshIndex node i = Node (GetId node) (node_name node) (meshIndices node @ [i]) (childNodes node)"

definition AddChildNode_root :: "Model \<Rightarrow> Node \<Rightarrow> Model" where
  "AddChildNode_root M child =
     (let r = root M;
          placed = Node (nextNodeId M) (node_name child) (meshIndices child) (childNodes child)
      in M\<lparr>root := Node (GetId r) (node_name r) (meshIndices r) (childNodes r @ [placed]),
           nextNodeId := Suc (nextNodeId M)\<rparr>)"

fun EnumerateMeshIndices :: "Node \<Rightarrow> nat list" where
  "EnumerateMeshIndices (Node i n ms cs) = ms @ concat (map EnumerateMeshIndices cs)"

text \<open>The copy loops of the exporter: every vertex, normal and texture coordinate of the
  original is added to a new mesh, then the chosen triangles.\<close>

definition copy_geometry :: "Mesh \<Rightarrow> Mesh" where
  "copy_geometry originalMesh =
     foldl AddTextureUV
       (foldl AddNormal (foldl AddVertex new_Mesh (vertices originalMesh)) (normals originalMesh))
       (textureUVs originalMesh)"

definition copy_triangles :: "Mesh \<Rightarrow> Triangle list \<Rightarrow> Mesh" where
  "copy_triangles clonedMesh ts = foldl AddTriangle clonedMesh ts"

text \<open>The four statements that place a new mesh: \<open>AddMesh\<close>, \<open>new Node ()\<close>,
  \<open>AddMeshIndex\<close>, \<open>rootNode.AddChildNode\<close>.\<close>

definition place_mesh :: "Model \<Rightarrow> Mesh \<Rightarrow> string \<Rightarrow> Model" where
  "place_mesh M mesh nodeName =
     (let (M1, meshIndex) = Model_AddMesh M mesh;
          meshNode = AddMeshIndex (Node_SetName new_Node nodeName) meshIndex
      in AddChildNode_root M1 meshNode)"

subsection \<open>The geometry written for a group\<close>

text \<open>
  \<open>ExportPhysicalGroups\<close> does not read the group's membership: for every group it
  builds "a simple model with a single unit cube for testing", eight vertices and twelve
  triangles under one node named after the group.
\<close>

definition test_cube_mesh :: "nat \<Rightarrow> Mesh" where
  "test_cube_mesh materialIndex =
     copy_triangles
       (foldl AddVertex new_Mesh
          [Coord3D (- 1) (- 1) (- 1), Coord3D 1 (- 1) (- 1), Coord3D 1 1 (- 1), Coord3D (- 1) 1 (- 1),
           Coord3D (- 1) (- 1) 1, Coord3D 1 (- 1) 1, Coord3D 1 1 1, Coord3D (- 1) 1 1])
       [Triangle 0 1 2 0 0 0 materialIndex 0, Triangle 0 2 3 0 0 0 materialIndex 0,
        Triangle 4 7 6 0 0 0 materialIndex 0, Triangle 4 6 5 0 0 0 materialIndex 0,
        Triangle 0 4 5 0 0 0 materialIndex 0, Triangle 0 5 1 0 0 0 materialIndex 0,
        Triangle 2 6 7 0 0 0 materialIndex 0, Triangle 2 7 3 0 0 0 materialIndex 0,
        Triangle 0 3 7 0 0 0 materialIndex 0, Triangle 0 7 4 0 0 0 materialIndex 0,
        Triangle 1 5 6 0 0 0 materialIndex 0, Triangle 1 6 2 0 0 0 materialIndex 0]"

definition test_cube_model :: "string \<Rightarrow> Model" where
  "test_cube_model groupName =
     (let (M1, materialIndex) = AddMaterial new_Model ''Test Material''
      in place_mesh M1 (test_cube_mesh materialIndex) groupName)"

subsection \<open>Merging into one model\<close>

definition MergeIntoModel :: "Model \<Rightarrow> Model \<Rightarrow> string \<Rightarrow> Model" where
  "MergeIntoModel sourceModel targetModel groupName =
     (let offset = MeshCount targetModel;
          cloned = map (\<lambda>sourceMesh. copy_triangles (copy_geometry sourceMesh) (triangles sourceMesh))
                     (model_meshes sourceModel);
          T1 = targetModel\<lparr>model_meshes := model_meshes targetModel @ cloned\<rparr>;
          mapped = map (\<lambda>meshIndex. offset + meshIndex)
                     (filter (\<lambda>meshIndex. meshIndex < MeshCount sourceModel)
                        (EnumerateMeshIndices (root sourceModel)));
          groupNode = Node 0 groupName mapped []
      in AddChildNode_root T1 groupNode)"

subsection \<open>The remainder\<close>

text \<open>The value \<open>usedMeshInstances\<close> holds for a key: the string \<open>'all'\<close> or an array
  of face indices.\<close>

datatype UsedFaces = AllFaces | Faces "int list"

definition unused_triangles :: "Mesh \<Rightarrow> int list \<Rightarrow> Triangle list" where
  "unused_triangles originalMesh usedFaces =
     map (\<lambda>i. triangles originalMesh ! i)
       (filter (\<lambda>i. int i \<notin> set usedFaces) [0..<TriangleCount originalMesh])"

definition remainder_step ::
  "(MeshInstanceKey \<rightharpoonup> UsedFaces) \<Rightarrow> Model \<Rightarrow> MeshInstance \<Rightarrow> js_error + Model" where
  "remainder_step usedMeshInstances remainderModel meshInstance =
     (let meshKey = GetKey (instance_id meshInstance)
      in case usedMeshInstances meshKey of
           None \<Rightarrow>
             (case instance_mesh meshInstance of
                None \<Rightarrow> Inl TypeError
              | Some originalMesh \<Rightarrow>
                  Inr (place_mesh remainderModel
                         (copy_triangles (copy_geometry originalMesh) (triangles originalMesh)) []))
         | Some (Faces usedFaces) \<Rightarrow>
             (case instance_mesh meshInstance of
                None \<Rightarrow> Inl TypeError
              | Some originalMesh \<Rightarrow>
                  (let clonedMesh = copy_triangles (copy_geometry originalMesh)
                                      (unused_triangles originalMesh usedFaces)
                   in if TriangleCount clonedMesh > 0
                      then Inr (place_mesh remainderModel clonedMesh [])
                      else Inr remainderModel))
         | Some AllFaces \<Rightarrow> Inr remainderModel)"

fun remainder_loop ::
  "(MeshInstanceKey \<rightharpoonup> UsedFaces) \<Rightarrow> Model \<Rightarrow> MeshInstance list \<Rightarrow> js_error + Model" where
  "remainder_loop used remainderModel [] = Inr remainderModel"
| "remainder_loop used remainderModel (mi # rest) =
     and_then (remainder_step used remainderModel mi) (\<lambda>R1. remainder_loop used R1 rest)"

definition CreateRemainderModel ::
  "Model \<Rightarrow> (MeshInstanceKey \<rightharpoonup> UsedFaces) \<Rightarrow> js_error + Model" where
  "CreateRemainderModel originalModel usedMeshInstances =
     (let remainderModel = new_Model\<lparr>materials := materials originalModel\<rparr>
      in remainder_loop usedMeshInstances remainderModel (EnumerateMeshInstances originalModel))"

subsection \<open>\<open>ExportPhysicalGroups\<close>\<close>

text \<open>
  \<open>groupName.replace (/[^a-z0-9]/gi, '_').toLowerCase ()\<close>. The expression works on the
  UTF-16 code units of the name and a string of the model holds the bytes of its UTF-8
  form, so \<open>sanitize_char\<close> gives what the expression makes of the unit or units a byte
  begins: an ASCII letter or digit stays, in lower case; any other ASCII character and the
  first byte of a sequence of two or three bytes (one code unit) become one underscore;
  the first byte of a sequence of four bytes (a surrogate pair) becomes two; a
  continuation byte adds nothing.
\<close>

definition sanitize_char :: "char \<Rightarrow> string" where
  "sanitize_char c =
     (let n = (of_char c :: nat)
      in if (97 \<le> n \<and> n \<le> 122) \<or> (48 \<le> n \<and> n \<le> 57) then [c]
         else if 65 \<le> n \<and> n \<le> 90 then [char_of (n + 32)]
         else if n < 128 then ''_''
         else if n < 192 then []
         else if n < 240 then ''_''
         else ''__'')"

definition sanitize :: "string \<Rightarrow> string" where
  "sanitize groupName = concat (map sanitize_char groupName)"

text \<open>The settings handed to the exporter model of one group: a copy without
  \<open>exportPhysicalGroups\<close>, \<open>selectedGroups\<close>, \<open>exportSelectedOnly\<close> and \<open>exportRemainder\<close>.
  The unified model and the remainder get a copy without \<open>exportPhysicalGroups\<close>.\<close>

definition filtered_settings :: "ExporterSettings \<Rightarrow> ExporterSettings" where
  "filtered_settings s =
     s\<lparr>exportPhysicalGroups := None, selectedGroups := None, exportSelectedOnly := None,
       exportRemainder := None\<rparr>"

definition without_exportPhysicalGroups :: "ExporterSettings \<Rightarrow> ExporterSettings" where
  "without_exportPhysicalGroups s = s\<lparr>exportPhysicalGroups := None\<rparr>"

text \<open>The state of the loop over the groups: the files, \<open>groupsProcessed\<close>, and the
  unified model (\<open>null\<close> when separate files are written).\<close>

type_synonym group_loop_state = "ExportedFile list \<times> nat \<times> Model option"

definition group_step ::
  "FloatOps \<Rightarrow> ExporterSettings \<Rightarrow> FileFormat \<Rightarrow> bool \<Rightarrow> nat list \<Rightarrow> bool
     \<Rightarrow> group_loop_state \<Rightarrow> nat \<times> PhysicalGroup \<Rightarrow> js_error + group_loop_state" where
  "group_step ops s format only selected separate st ig =
     (let (files, groupsProcessed, unifiedModel) = st;
          (i, group) = ig
      in if only \<and> i \<notin> set selected then Inr st
         else
           (let groupName = GetName group;
                filteredModel = test_cube_model groupName
            in and_then (Model_TriangleCount filteredModel) (\<lambda>triangleCount.
                 if MeshInstanceCount filteredModel = 0 \<or> triangleCount = 0 then Inr st
                 else
                   (let filteredExporterModel = new_ExporterModel filteredModel (filtered_settings s)
                    in if separate then
                         (let fileName = sanitize groupName @ ''.stl''
                          in and_then
                               (if format = Text
                                then ExportTextForModel ops filteredExporterModel files fileName groupName
                                else ExportBinaryForModel ops filteredExporterModel files fileName)
                               (\<lambda>files1. Inr (files1, Suc groupsProcessed, unifiedModel)))
                       else
                         Inr (files, Suc groupsProcessed,
                              map_option (\<lambda>target. MergeIntoModel filteredModel target groupName)
                                unifiedModel)))))"

fun group_loop ::
  "FloatOps \<Rightarrow> ExporterSettings \<Rightarrow> FileFormat \<Rightarrow> bool \<Rightarrow> nat list \<Rightarrow> bool
     \<Rightarrow> group_loop_state \<Rightarrow> (nat \<times> PhysicalGroup) list \<Rightarrow> js_error + group_loop_state" where
  "group_loop ops s format only selected separate st [] = Inr st"
| "group_loop ops s format only selected separate st (ig # rest) =
     and_then (group_step ops s format only selected separate st ig)
       (\<lambda>st1. group_loop ops s format only selected separate st1 rest)"

definition export_unified ::
  "FloatOps \<Rightarrow> ExporterSettings \<Rightarrow> FileFormat \<Rightarrow> group_loop_state \<Rightarrow> js_error + ExportedFile list" where
  "export_unified ops s format st =
     (let (files, groupsProcessed, unifiedModel) = st
      in case unifiedModel of
           None \<Rightarrow> Inr files
         | Some U \<Rightarrow>
             if groupsProcessed > 0 then
               (let unifiedExporterModel = new_ExporterModel U (without_exportPhysicalGroups s)
                in and_then
                     (if format = Text
                      then ExportTextForModel ops unifiedExporterModel files ''model.stl'' ''Model''
                      else ExportBinaryForModel ops unifiedExporterModel files ''model.stl'')
                     (\<lambda>files1. and_then (Model_TriangleCount U) (\<lambda>logged. Inr files1)))
             else Inr files)"

definition export_remainder ::
  "FloatOps \<Rightarrow> Model \<Rightarrow> ExporterSettings \<Rightarrow> FileFormat \<Rightarrow> (MeshInstanceKey \<rightharpoonup> UsedFaces)
     \<Rightarrow> ExportedFile list \<Rightarrow> js_error + ExportedFile list" where
  "export_remainder ops M s format usedMeshInstances files =
     and_then (CreateRemainderModel M usedMeshInstances) (\<lambda>remainderModel.
       if MeshInstanceCount remainderModel > 0 then
         and_then (Model_TriangleCount remainderModel) (\<lambda>triangleCount.
           if triangleCount > 0 then
             (let remainderExporterModel =
                    new_ExporterModel remainderModel (without_exportPhysicalGroups s)
              in if format = Text
                 then ExportTextForModel ops remainderExporterModel files ''remainder.stl'' ''Remainder''
                 else ExportBinaryForModel ops remainderExporterModel files ''remainder.stl'')
           else Inr files)
       else Inr files)"

definition export_empty :: "FileFormat \<Rightarrow> ExportedFile list \<Rightarrow> js_error + ExportedFile list" where
  "export_empty format files =
     (if format = Text then
        (let textWriter = WriteLine (WriteLine new_TextWriter ''solid EmptyModel'') ''endsolid EmptyModel''
         in Inr (files @ [SetTextContent (new_ExportedFile ''empty.stl'') (GetText textWriter)]))
      else
        (let headerSize = 80;
             stlWriter = new_BinaryWriter (headerSize + 4)
         in and_then (WriteCharacters stlWriter 0 headerSize) (\<lambda>w1.
            and_then (WriteUnsignedInteger32 w1 0) (\<lambda>w2.
              Inr (files @ [SetBufferContent (new_ExportedFile ''empty.stl'') (GetBuffer w2)])))))"

text \<open>
  The map \<open>usedMeshInstances\<close> is created empty ("track used mesh instances and faces for
  remainder calculation") and handed to \<open>CreateRemainderModel\<close> as it is: nothing in
  \<open>ExportPhysicalGroups\<close> writes to it.
\<close>

definition ExportPhysicalGroups ::
  "FloatOps \<Rightarrow> ExporterModel \<Rightarrow> FileFormat \<Rightarrow> ExportedFile list \<Rightarrow> js_error + ExportedFile list" where
  "ExportPhysicalGroups ops exporterModel format files =
     (let M = GetModel exporterModel;
          s = settings exporterModel;
          selected = (case selectedGroups s of None \<Rightarrow> [] | Some l \<Rightarrow> l);
          only = (exportSelectedOnly s = Some True);
          remainder = (exportRemainder s \<noteq> Some False);
          separate = (exportSeparateFiles s \<noteq> Some False);
          unifiedModel = (if \<not> separate then Some (new_Model\<lparr>materials := materials M\<rparr>) else None);
          usedMeshInstances = Map.empty
      in and_then (group_loop ops s format only selected separate (files, 0, unifiedModel)
                     (zip [0..<length (physicalGroups M)] (physicalGroups M))) (\<lambda>st.
         and_then (export_unified ops s format st) (\<lambda>files1.
         and_then (if remainder
                   then export_remainder ops M s format usedMeshInstances files1
                   else Inr files1) (\<lambda>files2.
           if files2 = [] then export_empty format files2 else Inr files2))))"

subsection \<open>The triangle assignment of the IGES exporter (class ExporterIges)\<close>

text \<open>
  The groups the IGES exporter sends to the server, each with the indices of "its"
  triangles in the flattened triangle list. \<open>totalTriangles\<close> is the number of triangles
  \<open>EnumerateTriangleVertices\<close> delivered; the assignment slices the index range by the
  number of groups and reads nothing of a group but its name.
\<close>

definition iges_group_triangles :: "nat \<Rightarrow> nat \<Rightarrow> nat \<Rightarrow> nat list" where
  "iges_group_triangles totalTriangles groupCount i =
     (let groupSize = max 1 (totalTriangles div groupCount);
          startIdx = i * groupSize;
          endIdx = min totalTriangles ((i + 1) * groupSize)
      in [startIdx..<endIdx])"

definition ExporterIges_physicalGroups :: "Model \<Rightarrow> nat \<Rightarrow> (string \<times> nat list) list" where
  "ExporterIges_physicalGroups M totalTriangles =
     (let groups = physicalGroups M
      in if length groups > 0 then
           (let assigned = map (\<lambda>(i, group).
                   (GetName group, iges_group_triangles totalTriangles (length groups) i))
                 (zip [0..<length groups] groups);
                assignedTriangles = set (concat (map snd assigned));
                unassignedTriangles = filter (\<lambda>i. i \<notin> assignedTriangles) [0..<totalTriangles]
            in assigned @ (if length unassignedTriangles > 0
                           then [(''Unassigned_Faces'', unassignedTriangles)] else []))
         else [(''Model_Faces'', [0..<totalTriangles])])"


section \<open>The binary glTF container (ExporterGltf.ExportBinaryContent)\<close>

definition AlignToBoundary :: "nat \<Rightarrow> nat" where
  "AlignToBoundary n =
     (let remainder = n mod 4
      in if remainder = 0 then n else n + (4 - remainder))"

text \<open>The two loops over \<open>textureBuffers\<close>: the one that adds up the byte lengths and the
  one that writes the buffers.\<close>

fun add_byteLengths :: "nat \<Rightarrow> byte list list \<Rightarrow> nat" where
  "add_byteLengths len [] = len"
| "add_byteLengths len (textureBuffer # rest) = add_byteLengths (len + length textureBuffer) rest"

fun WriteArrayBuffers :: "BinaryWriter \<Rightarrow> byte list list \<Rightarrow> js_error + BinaryWriter" where
  "WriteArrayBuffers w [] = Inr w"
| "WriteArrayBuffers w (textureBuffer # rest) =
     and_then (WriteArrayBuffer w textureBuffer) (\<lambda>w1. WriteArrayBuffers w1 rest)"

text \<open>
  \<open>ExportBinaryContent\<close> from the point where its three inputs are known. What produces
  them is not among the sources (\<open>ConvertMeshToMeshBuffer\<close>, the texture objects,
  \<open>JSON.stringify\<close>), so they are parameters: \<open>mainBuffer\<close> is the buffer
  \<open>GetMainBuffer\<close> returned, \<open>textureBuffers\<close> are the buffers the texture callback
  collected, in order, and \<open>stringify byteLength\<close> is the UTF-8 form of
  \<open>JSON.stringify (mainJson)\<close> after \<open>{byteLength}\<close> was pushed to \<open>mainJson.buffers\<close>.
\<close>

definition ExportBinaryContent ::
  "byte list \<Rightarrow> byte list list \<Rightarrow> (nat \<Rightarrow> byte list) \<Rightarrow> ExportedFile list
     \<Rightarrow> js_error + ExportedFile list" where
  "ExportBinaryContent mainBuffer textureBuffers stringify files =
     (let glbFile = new_ExportedFile ''model.glb'';
          mainBinaryBufferLength = add_byteLengths (length mainBuffer) textureBuffers;
          mainBinaryBufferAlignedLength = AlignToBoundary mainBinaryBufferLength;
          mainJsonBuffer = stringify mainBinaryBufferAlignedLength;
          mainJsonBufferLength = length mainJsonBuffer;
          mainJsonBufferAlignedLength = AlignToBoundary mainJsonBufferLength;
          glbSize = 12 + 8 + mainJsonBufferAlignedLength + 8 + mainBinaryBufferAlignedLength;
          glbWriter = new_BinaryWriter glbSize
      in and_then (WriteUnsignedInteger32 glbWriter 0x46546C67) (\<lambda>w1.
         and_then (WriteUnsignedInteger32 w1 2) (\<lambda>w2.
         and_then (WriteUnsignedInteger32 w2 glbSize) (\<lambda>w3.
         and_then (WriteUnsignedInteger32 w3 mainJsonBufferAlignedLength) (\<lambda>w4.
         and_then (WriteUnsignedInteger32 w4 0x4E4F534A) (\<lambda>w5.
         and_then (WriteArrayBuffer w5 mainJsonBuffer) (\<lambda>w6.
         and_then (WriteCharacters w6 32 (mainJsonBufferAlignedLength - mainJsonBufferLength)) (\<lambda>w7.
         and_then (WriteUnsignedInteger32 w7 mainBinaryBufferAlignedLength) (\<lambda>w8.
         and_then (WriteUnsignedInteger32 w8 0x004E4942) (\<lambda>w9.
         and_then (WriteArrayBuffer w9 mainBuffer) (\<lambda>w10.
         and_then (WriteArrayBuffers w10 textureBuffers) (\<lambda>w11.
         and_then (WriteCharacters w11 0 (mainBinaryBufferAlignedLength - mainBinaryBufferLength)) (\<lambda>w12.
           Inr (files @ [SetBufferContent glbFile (GetBuffer w12)]))))))))))))))"

text \<open>The bytes of the container, chunk by chunk, for a JSON payload and a binary payload
  (the main buffer followed by the texture buffers).\<close>

definition glb_bytes :: "byte list \<Rightarrow> byte list \<Rightarrow> byte list" where
  "glb_bytes json bin =
     (let jsonAligned = AlignToBoundary (length json);
          binAligned = AlignToBoundary (length bin);
          glbSize = 12 + 8 + jsonAligned + 8 + binAligned
      in le32 0x46546C67 @ le32 2 @ le32 (of_nat glbSize)
         @ le32 (of_nat jsonAligned) @ le32 0x4E4F534A @ json @ replicate (jsonAligned - length json) 32
         @ le32 (of_nat binAligned) @ le32 0x004E4942 @ bin @ replicate (binAligned - length bin) 0)"

section \<open>Packaging of the exported files (website/exportdialog.js)\<close>

text \<open>
  What the callbacks of \<open>ModelExporterUI.ExportModel\<close> do, as the list of their visible
  effects. A download carries either one file's buffer or the archive \<open>fflate.zipSync\<close>
  makes of the object \<open>filesInZip\<close>.
\<close>

datatype DownloadContent =
    FileBuffer "byte list option"
  | ZipArchive "(string \<times> byte list) list"

datatype UiEffect =
    CloseProgressDialog
  | ShowMessageDialog string string
  | DownloadArrayBufferAsFile DownloadContent string

text \<open>
  The object \<open>filesInZip\<close> starts as \<open>{}\<close> and is modelled by its own properties in the
  order JavaScript enumerates them: first the names that are array indices (the decimal
  form, without leading zeros, of an integer below 2^32 - 1) in ascending numeric order,
  then all other names in the order of their creation. Assigning to a name that is there
  replaces the value and keeps the place.

  Assigning to the name \<open>__proto__\<close> adds no property: it makes the typed array the
  prototype of the object. What later assignments and the archiver then find depends on
  the properties of typed arrays; the model does not follow the export further, and the
  result of the assignment is \<open>None\<close>.
\<close>

definition is_digit :: "char \<Rightarrow> bool" where
  "is_digit c = (48 \<le> (of_char c :: nat) \<and> (of_char c :: nat) \<le> 57)"

definition decimal_value :: "string \<Rightarrow> nat" where
  "decimal_value key = foldl (\<lambda>n c. 10 * n + ((of_char c :: nat) - 48)) 0 key"

definition is_array_index :: "string \<Rightarrow> bool" where
  "is_array_index key =
     (key \<noteq> [] \<and> list_all is_digit key \<and> (key = ''0'' \<or> hd key \<noteq> CHR ''0'')
      \<and> decimal_value key < 2 ^ 32 - 1)"

fun replace_value :: "(string \<times> 'v) list \<Rightarrow> string \<Rightarrow> 'v \<Rightarrow> (string \<times> 'v) list" where
  "replace_value [] key val = []"
| "replace_value ((key1, val1) # rest) key val =
     (if key1 = key then (key1, val) # rest else (key1, val1) # replace_value rest key val)"

fun insert_index :: "(string \<times> 'v) list \<Rightarrow> string \<Rightarrow> 'v \<Rightarrow> (string \<times> 'v) list" where
  "insert_index [] key val = [(key, val)]"
| "insert_index ((key1, val1) # rest) key val =
     (if is_array_index key1 \<and> decimal_value key1 < decimal_value key
      then (key1, val1) # insert_index rest key val
      else (key, val) # (key1, val1) # rest)"

definition object_set :: "(string \<times> 'v) list \<Rightarrow> string \<Rightarrow> 'v \<Rightarrow> (string \<times> 'v) list option" where
  "object_set obj key val =
     (if key = ''__proto__'' then None
      else if key \<in> set (map fst obj) then Some (replace_value obj key val)
      else if is_array_index key then Some (insert_index obj key val)
      else Some (obj @ [(key, val)]))"

text \<open>\<open>new Uint8Array (file.GetBufferContent ())\<close>: an empty array for a content that
  is \<open>null\<close>.\<close>

definition Uint8Array_of :: "byte list option \<Rightarrow> byte list" where
  "Uint8Array_of c = (case c of None \<Rightarrow> [] | Some bs \<Rightarrow> bs)"

text \<open>The loop \<open>for (let file of files) filesInZip[file.GetName ()] = ...\<close>.\<close>

fun filesInZip_loop ::
  "(string \<times> byte list) list \<Rightarrow> ExportedFile list \<Rightarrow> (string \<times> byte list) list option" where
  "filesInZip_loop obj [] = Some obj"
| "filesInZip_loop obj (file # rest) =
     (case object_set obj (file_name file) (Uint8Array_of (content file)) of
        None \<Rightarrow> None
      | Some obj1 \<Rightarrow> filesInZip_loop obj1 rest)"

definition filesInZip :: "ExportedFile list \<Rightarrow> (string \<times> byte list) list option" where
  "filesInZip files = filesInZip_loop [] files"

definition onError :: "UiEffect list" where
  "onError = [CloseProgressDialog]"

definition onSuccess :: "ExportedFile list \<Rightarrow> UiEffect list option" where
  "onSuccess files =
     (if length files = 0 then Some [CloseProgressDialog]
      else if length files = 1 then
        Some [CloseProgressDialog,
              DownloadArrayBufferAsFile (FileBuffer (content (files ! 0))) (file_name (files ! 0))]
      else
        (case filesInZip files of
           None \<Rightarrow> None
         | Some zipped \<Rightarrow>
             Some [CloseProgressDialog, DownloadArrayBufferAsFile (ZipArchive zipped) ''model.zip'']))"

text \<open>
  The \<open>onError\<close> callback that the Simulate button of the website (website.js) hands to
  the same \<open>Exporter.Export\<close>: it closes the progress dialog and reports the failure.
\<close>

definition Simulate_onError :: "UiEffect list" where
  "Simulate_onError =
     [CloseProgressDialog, ShowMessageDialog ''Simulation Error'' ''Failed to export physical groups.'']"


section \<open>Example inputs: a stand-in platform and the cube\<close>

text \<open>
  For closed examples the floating-point parameters need values. \<open>example_ops\<close> is exact
  on the numbers of the test cube (the float32 patterns of 1, -1 and 0), places a facet's
  corners by the identity transformation and leaves the normal at zero.
\<close>

definition example_ops :: FloatOps where
  "example_ops =
     \<lparr>float32 = (\<lambda>r. if r = 1 then 0x3F800000 else if r = - 1 then 0xBF800000 else 0),
      numberToString = (\<lambda>r. if r = 1 then ''1'' else if r = - 1 then ''-1'' else ''0''),
      facetOf = (\<lambda>mi t.
         case instance_mesh mi of
           None \<Rightarrow> Facet (Coord3D 0 0 0) (Coord3D 0 0 0) (Coord3D 0 0 0) (Coord3D 0 0 0)
         | Some m \<Rightarrow> Facet (vertices m ! v0 t) (vertices m ! v1 t) (vertices m ! v2 t)
                       (Coord3D 0 0 0))\<rparr>"

definition cube_exporter_model :: ExporterModel where
  "cube_exporter_model = new_ExporterModel (test_cube_model ''cube'') new_ExporterSettings"


section \<open>Example inputs: two groups on one mesh instance\<close>

text \<open>
  A model that places one mesh of twelve triangles at its root, with two groups on that
  instance: \<open>inlet\<close> holds the faces 0 to 4 and \<open>wall\<close> the faces 5 to 11.
  \<open>group_export_settings\<close> are the settings the export dialog makes when physical groups
  are exported: the chosen group indices, selected groups only, separate files.
\<close>

definition twelve_model :: Model where
  "twelve_model =
     \<lparr>root = Node 0 [] [0] [], nextNodeId = 1, materials = [],
      model_meshes = [test_cube_mesh 0],
      physicalGroups =
        [AddFaces_loop (new_PhysicalGroup ''inlet'') (MeshInstanceId 0 0) 0 5,
         AddFaces_loop (new_PhysicalGroup ''wall'') (MeshInstanceId 0 0) 5 7]\<rparr>"

definition group_export_settings :: "nat list \<Rightarrow> bool \<Rightarrow> ExporterSettings" where
  "group_export_settings chosen withRemainder =
     new_ExporterSettings\<lparr>exportPhysicalGroups := Some True, selectedGroups := Some chosen,
       exportSelectedOnly := Some True, exportRemainder := Some withRemainder,
       exportSeparateFiles := Some True\<rparr>"

text \<open>The binary STL file of the test cube that stands for a group named \<open>g\<close>.\<close>

definition cube_stl_bytes :: "FloatOps \<Rightarrow> string \<Rightarrow> byte list" where
  "cube_stl_bytes ops g =
     replicate 80 0 @ le32 12
     @ concat (map (facet_bytes ops)
         (map (facetOf ops (MeshInstance (MeshInstanceId 1 0) (Node 1 g [0] []) (Some (test_cube_mesh 0))))
            (triangles (test_cube_mesh 0))))"

text \<open>The model \<open>CreateRemainderModel\<close> builds from \<open>two_mesh_model\<close> when no face is
  marked as used: both meshes, each under a node of its own.\<close>

definition two_mesh_remainder :: Model where
  "two_mesh_remainder =
     \<lparr>root = Node 0 [] [] [Node 1 [] [0] [], Node 2 [] [1] []], nextNodeId = 3, materials = [],
      model_meshes = [meshA, meshB], physicalGroups = []\<rparr>"



section \<open>Properties of physical groups\<close>

lemma touch_idem: "touch (touch g k) k = touch g k"
  by (simp add: touch_def Let_def)

lemma touch_meshFaces_Some: "\<exists>fs. meshFaces (touch g k) k = Some fs"
  by (cases "meshFaces g k") (simp_all add: touch_def Let_def)

lemma touch_faces_distinct: "faces_distinct g \<Longrightarrow> faces_distinct (touch g k)"
  by (auto simp: faces_distinct_def touch_def Let_def split: if_splits)

lemma touch_keys_agree: "keys_agree g \<Longrightarrow> keys_agree (touch g k)"
  by (auto simp: keys_agree_def touch_def Let_def)

lemma AddMeshWithIndex_faces_distinct:
  "faces_distinct g \<Longrightarrow> faces_distinct (AddMeshWithIndex g i f)"
proof (cases i)
  case None
  assume "faces_distinct g"
  with None show ?thesis by (simp add: AddMeshWithIndex_def)
next
  case (Some m)
  assume "faces_distinct g"
  then have d: "faces_distinct (touch g (GetKey m))" by (rule touch_faces_distinct)
  show ?thesis
  proof (cases f)
    case None
    with Some d show ?thesis by (simp add: AddMeshWithIndex_def Let_def)
  next
    case (Some x)
    obtain fs where fs: "meshFaces (touch g (GetKey m)) (GetKey m) = Some fs"
      using touch_meshFaces_Some by blast
    with d have "distinct fs" unfolding faces_distinct_def by blast
    with d fs Some \<open>i = Some m\<close> show ?thesis
      by (auto simp: AddMeshWithIndex_def Let_def faces_distinct_def)
  qed
qed

lemma AddMeshWithIndex_idem:
  "AddMeshWithIndex (AddMeshWithIndex g i f) i f = AddMeshWithIndex g i f"
proof (cases i)
  case None
  then show ?thesis by (simp add: AddMeshWithIndex_def)
next
  case (Some m)
  let ?k = "GetKey m"
  obtain fs where fs: "meshFaces (touch g ?k) ?k = Some fs"
    using touch_meshFaces_Some by blast
  show ?thesis
  proof (cases f)
    case None
    with Some show ?thesis by (simp add: AddMeshWithIndex_def Let_def touch_idem)
  next
    case (Some x)
    show ?thesis
    proof (cases "x \<in> set fs")
      case True
      with fs Some \<open>i = Some m\<close> show ?thesis
        by (simp add: AddMeshWithIndex_def Let_def touch_idem)
    next
      case False
      let ?g3 = "(touch g ?k)\<lparr>meshFaces := (meshFaces (touch g ?k))(?k \<mapsto> fs @ [x])\<rparr>"
      have first: "AddMeshWithIndex g i f = ?g3"
        using fs Some \<open>i = Some m\<close> False by (simp add: AddMeshWithIndex_def Let_def)
      have t: "touch ?g3 ?k = ?g3"
        by (simp add: touch_def Let_def insert_absorb)
      have "AddMeshWithIndex ?g3 i f = ?g3"
        using Some \<open>i = Some m\<close> by (simp add: AddMeshWithIndex_def Let_def t)
      with first show ?thesis by simp
    qed
  qed
qed

lemma AddMesh_faces_distinct: "faces_distinct g \<Longrightarrow> AddMesh g i = Inr g' \<Longrightarrow> faces_distinct g'"
  by (auto simp: AddMesh_def touch_faces_distinct split: option.splits)

lemma RemoveMesh_faces_distinct:
  "faces_distinct g \<Longrightarrow> RemoveMesh g i = Inr g' \<Longrightarrow> faces_distinct g'"
  by (auto simp: RemoveMesh_def faces_distinct_def split: option.splits if_splits)

lemma reachable_faces_distinct: "group_reachable g \<Longrightarrow> faces_distinct g"
proof (induction rule: group_reachable.induct)
  case (reach_new n)
  show ?case by (simp add: faces_distinct_def new_PhysicalGroup_def)
next
  case (reach_SetName g n)
  then show ?case by (simp add: faces_distinct_def SetName_def)
next
  case (reach_SetColor g c)
  then show ?case by (simp add: faces_distinct_def SetColor_def)
next
  case (reach_AddMesh g i g')
  then show ?case by (blast intro: AddMesh_faces_distinct)
next
  case (reach_AddMeshWithIndex g i f)
  then show ?case by (simp add: AddMeshWithIndex_faces_distinct)
next
  case (reach_RemoveMesh g i g')
  then show ?case by (blast intro: RemoveMesh_faces_distinct)
next
  case (reach_Clear g)
  show ?case by (simp add: faces_distinct_def Clear_def)
qed

text \<open>
  Claim C9. Adding a face index to a group's per-instance membership is idempotent: for
  every group, every mesh instance id (valid or not) and every face index (given or
  \<open>undefined\<close>), \<open>AddMeshWithIndex\<close> applied twice leaves the group exactly as applying it
  once does; and in every state a group can reach through its constructor and methods, no
  stored face-index list holds an index twice.
\<close>

theorem AddMeshWithIndex_idempotent_no_duplicates:
  "AddMeshWithIndex (AddMeshWithIndex g i f) i f = AddMeshWithIndex g i f
   \<and> (group_reachable g \<longrightarrow>
        (\<forall>k faceIndices. meshFaces g k = Some faceIndices \<longrightarrow> distinct faceIndices))"
  using AddMeshWithIndex_idem [of g i f] reachable_faces_distinct [of g]
  unfolding faces_distinct_def by blast

theorem AddMeshWithIndex_idempotent_no_duplicates_witness:
  "group_reachable
     (AddMeshWithIndex (AddMeshWithIndex (new_PhysicalGroup ''inlet'')
        (Some (MeshInstanceId 1 0)) (Some 3)) (Some (MeshInstanceId 1 0)) (Some 3))
   \<and> meshFaces
        (AddMeshWithIndex (AddMeshWithIndex (new_PhysicalGroup ''inlet'')
           (Some (MeshInstanceId 1 0)) (Some 3)) (Some (MeshInstanceId 1 0)) (Some 3))
        (1, 0) = Some [3]
   \<and> distinct [3 :: int]
   \<and> AddMeshWithIndex (AddMeshWithIndex (new_PhysicalGroup ''inlet'')
        (Some (MeshInstanceId 1 0)) (Some 3)) (Some (MeshInstanceId 1 0)) (Some 3)
     = AddMeshWithIndex (new_PhysicalGroup ''inlet'') (Some (MeshInstanceId 1 0)) (Some 3)"
proof -
  let ?g1 = "AddMeshWithIndex (new_PhysicalGroup ''inlet'') (Some (MeshInstanceId 1 0)) (Some 3)"
  have r: "group_reachable (AddMeshWithIndex ?g1 (Some (MeshInstanceId 1 0)) (Some 3))"
    by (intro reach_AddMeshWithIndex reach_new)
  have m: "meshFaces ?g1 (1, 0) = Some [3]"
    by (simp add: AddMeshWithIndex_def touch_def new_PhysicalGroup_def GetKey_def Let_def)
  from AddMeshWithIndex_idempotent_no_duplicates
         [of "new_PhysicalGroup ''inlet''" "Some (MeshInstanceId 1 0)" "Some 3"]
  have i: "AddMeshWithIndex ?g1 (Some (MeshInstanceId 1 0)) (Some 3) = ?g1"
    by blast
  from r m i show ?thesis by simp
qed

lemma AddMeshWithIndex_keys_agree: "keys_agree g \<Longrightarrow> keys_agree (AddMeshWithIndex g i f)"
proof (cases i)
  case None
  assume "keys_agree g"
  with None show ?thesis by (simp add: AddMeshWithIndex_def)
next
  case (Some m)
  assume "keys_agree g"
  then have "keys_agree (touch g (GetKey m))" by (rule touch_keys_agree)
  then have "insert (GetKey m) (dom (meshFaces (touch g (GetKey m)))) = meshes (touch g (GetKey m))"
    by (auto simp: keys_agree_def touch_def Let_def)
  with \<open>keys_agree (touch g (GetKey m))\<close> Some show ?thesis
    by (auto simp: AddMeshWithIndex_def Let_def keys_agree_def split: option.splits)
qed

lemma AddMesh_keys_agree: "keys_agree g \<Longrightarrow> AddMesh g i = Inr g' \<Longrightarrow> keys_agree g'"
  by (auto simp: AddMesh_def touch_keys_agree split: option.splits)

lemma RemoveMesh_keys_agree: "keys_agree g \<Longrightarrow> RemoveMesh g i = Inr g' \<Longrightarrow> keys_agree g'"
  by (auto simp: RemoveMesh_def keys_agree_def split: option.splits if_splits)

lemma ContainsMesh_iff: "keys_agree g \<Longrightarrow> ContainsMesh g (Some m) \<longleftrightarrow> meshFaces g (GetKey m) \<noteq> None"
  by (auto simp: ContainsMesh_def keys_agree_def)

lemma GetMeshFaceIndices_absent:
  "keys_agree g \<Longrightarrow> \<not> ContainsMesh g (Some m) \<Longrightarrow> GetMeshFaceIndices g (Some m) = []"
  by (auto simp: ContainsMesh_def GetMeshFaceIndices_def keys_agree_def split: option.splits)

text \<open>
  Claim C10. Every operation of a physical group keeps the membership set equal to the key
  set of the face-index map: the constructor establishes it, and \<open>SetName\<close>, \<open>SetColor\<close>,
  \<open>AddMesh\<close>, \<open>AddMeshWithIndex\<close>, \<open>RemoveMesh\<close> and \<open>Clear\<close> keep it (a call that throws
  changes nothing). Under it \<open>ContainsMesh\<close> is true exactly when the map has an entry for
  the key. \<open>GetMeshFaceIndices\<close> has no failing branch: it answers the empty array for an
  invalid id and for a key outside the group, and the stored array otherwise.
\<close>

theorem PhysicalGroup_keys_invariant:
  "keys_agree (new_PhysicalGroup n)
   \<and> (keys_agree g \<longrightarrow>
         keys_agree (SetName g n) \<and> keys_agree (SetColor g c)
       \<and> (\<forall>g'. AddMesh g i = Inr g' \<longrightarrow> keys_agree g')
       \<and> keys_agree (AddMeshWithIndex g i f)
       \<and> (\<forall>g'. RemoveMesh g i = Inr g' \<longrightarrow> keys_agree g')
       \<and> keys_agree (Clear g)
       \<and> (ContainsMesh g (Some m) \<longleftrightarrow> meshFaces g (GetKey m) \<noteq> None)
       \<and> (\<not> ContainsMesh g (Some m) \<longrightarrow> GetMeshFaceIndices g (Some m) = [])
       \<and> (\<forall>fs. meshFaces g (GetKey m) = Some fs \<longrightarrow> GetMeshFaceIndices g (Some m) = fs))
   \<and> \<not> ContainsMesh g None
   \<and> GetMeshFaceIndices g None = []"
proof -
  have a: "keys_agree (new_PhysicalGroup n)"
    by (simp add: keys_agree_def new_PhysicalGroup_def)
  have b: "keys_agree g \<Longrightarrow> keys_agree (SetName g n) \<and> keys_agree (SetColor g c) \<and> keys_agree (Clear g)"
    by (simp add: keys_agree_def SetName_def SetColor_def Clear_def)
  have c: "\<forall>fs. meshFaces g (GetKey m) = Some fs \<longrightarrow> GetMeshFaceIndices g (Some m) = fs"
    by (simp add: GetMeshFaceIndices_def)
  have d: "\<not> ContainsMesh g None \<and> GetMeshFaceIndices g None = []"
    by (simp add: ContainsMesh_def GetMeshFaceIndices_def)
  from a b c d show ?thesis
    using AddMesh_keys_agree [of g i] AddMeshWithIndex_keys_agree [of g i f]
      RemoveMesh_keys_agree [of g i] ContainsMesh_iff [of g m] GetMeshFaceIndices_absent [of g m]
    by blast
qed

theorem PhysicalGroup_keys_invariant_witness:
  "keys_agree (new_PhysicalGroup ''wall'')
   \<and> keys_agree (AddMeshWithIndex (new_PhysicalGroup ''wall'') (Some (MeshInstanceId 2 1)) (Some 7))
   \<and> ContainsMesh (AddMeshWithIndex (new_PhysicalGroup ''wall'') (Some (MeshInstanceId 2 1)) (Some 7))
        (Some (MeshInstanceId 2 1))
   \<and> GetMeshFaceIndices (AddMeshWithIndex (new_PhysicalGroup ''wall'') (Some (MeshInstanceId 2 1)) (Some 7))
        (Some (MeshInstanceId 2 1)) = [7]
   \<and> GetMeshFaceIndices (new_PhysicalGroup ''wall'') (Some (MeshInstanceId 2 1)) = []"
proof -
  define m where "m = MeshInstanceId 2 1"
  define g0 where "g0 = new_PhysicalGroup ''wall''"
  define g1 where "g1 = AddMeshWithIndex g0 (Some m) (Some 7)"
  note t0 = PhysicalGroup_keys_invariant [of "''wall''" g0 None "Some m" "Some 7" m]
  note t1 = PhysicalGroup_keys_invariant [of "''wall''" g1 None "Some m" "Some 7" m]
  have k0: "keys_agree g0" using t0 unfolding g0_def by (rule conjunct1)
  from t0 have "keys_agree g0 \<longrightarrow> keys_agree (AddMeshWithIndex g0 (Some m) (Some 7))"
    by blast
  with k0 have k1: "keys_agree g1" by (simp add: g1_def)
  have mf1: "meshFaces g1 (GetKey m) = Some [7]"
    by (simp add: g1_def g0_def m_def AddMeshWithIndex_def touch_def new_PhysicalGroup_def
        GetKey_def Let_def)
  have mf0: "meshFaces g0 (GetKey m) = None"
    by (simp add: g0_def new_PhysicalGroup_def)
  from t1 have "keys_agree g1 \<longrightarrow> (ContainsMesh g1 (Some m) \<longleftrightarrow> meshFaces g1 (GetKey m) \<noteq> None)"
    by blast
  with k1 mf1 have c1: "ContainsMesh g1 (Some m)" by simp
  from t1 have "keys_agree g1 \<longrightarrow>
      (\<forall>fs. meshFaces g1 (GetKey m) = Some fs \<longrightarrow> GetMeshFaceIndices g1 (Some m) = fs)"
    by blast
  with k1 mf1 have f1: "GetMeshFaceIndices g1 (Some m) = [7]" by blast
  from t0 have "keys_agree g0 \<longrightarrow> (ContainsMesh g0 (Some m) \<longleftrightarrow> meshFaces g0 (GetKey m) \<noteq> None)"
    by blast
  with k0 mf0 have n0: "\<not> ContainsMesh g0 (Some m)" by simp
  from t0 have "keys_agree g0 \<longrightarrow>
      (\<not> ContainsMesh g0 (Some m) \<longrightarrow> GetMeshFaceIndices g0 (Some m) = [])"
    by blast
  with k0 n0 have f0: "GetMeshFaceIndices g0 (Some m) = []" by blast
  from k0 k1 c1 f1 f0 show ?thesis
    unfolding g1_def g0_def m_def by simp
qed

section \<open>Properties of the model\<close>

lemma RemoveMesh_loop_eq:
  "RemoveMesh_loop index i ms =
     take i ms @ map (shifted_index index) (filter (\<lambda>m. m \<noteq> index) (drop i ms))"
proof (induction index i ms rule: RemoveMesh_loop.induct)
  case (1 index i ms)
  show ?case
  proof (cases "i < length ms")
    case False
    then show ?thesis by (subst RemoveMesh_loop.simps) simp
  next
    case True
    then have d: "drop i ms = ms ! i # drop (Suc i) ms"
      by (simp add: Cons_nth_drop_Suc)
    show ?thesis
    proof (cases "ms ! i = index")
      case eq: True
      have "RemoveMesh_loop index i ms = RemoveMesh_loop index i (take i ms @ drop (Suc i) ms)"
        using True eq by (subst RemoveMesh_loop.simps) simp
      also have "\<dots> = take i ms @ map (shifted_index index)
                          (filter (\<lambda>m. m \<noteq> index) (drop (Suc i) ms))"
        unfolding "1.IH"(1)[OF True eq] using True by (simp add: min_def)
      finally show ?thesis using eq d by (simp add: shifted_index_def)
    next
      case ne: False
      show ?thesis
      proof (cases "ms ! i > index")
        case gt: True
        have "RemoveMesh_loop index i ms = RemoveMesh_loop index (Suc i) (ms[i := ms ! i - 1])"
          using True ne gt by (subst RemoveMesh_loop.simps) simp
        also have "\<dots> = take i ms @ [ms ! i - 1] @ map (shifted_index index)
                          (filter (\<lambda>m. m \<noteq> index) (drop (Suc i) ms))"
          unfolding "1.IH"(2)[OF True ne gt] using True by (simp add: take_Suc_conv_app_nth)
        finally show ?thesis using ne gt d by (simp add: shifted_index_def)
      next
        case le: False
        have "RemoveMesh_loop index i ms = RemoveMesh_loop index (Suc i) ms"
          using True ne le by (subst RemoveMesh_loop.simps) simp
        also have "\<dots> = take i ms @ [ms ! i] @ map (shifted_index index)
                          (filter (\<lambda>m. m \<noteq> index) (drop (Suc i) ms))"
          unfolding "1.IH"(3)[OF True ne le] using True by (simp add: take_Suc_conv_app_nth)
        finally show ?thesis using ne le d by (simp add: shifted_index_def)
      qed
    qed
  qed
qed

lemma Enumerate_RemoveMesh_node:
  "Enumerate (RemoveMesh_node index node) = map (RemoveMesh_node index) (Enumerate node)"
  by (induction node rule: Enumerate.induct) (simp add: map_concat comp_def cong: map_cong)

lemma GetId_RemoveMesh_node: "GetId (RemoveMesh_node index node) = GetId node"
  by (cases node) simp

lemma meshIndices_RemoveMesh_node:
  "meshIndices (RemoveMesh_node index node)
     = map (shifted_index index) (filter (\<lambda>m. m \<noteq> index) (meshIndices node))"
  by (cases node) (simp add: RemoveMesh_loop_eq)

lemma GetMesh_RemoveMesh:
  "j \<noteq> index \<Longrightarrow> GetMesh (Model_RemoveMesh M index) (shifted_index index j) = GetMesh M j"
  by (auto simp: GetMesh_def array_get_def Model_RemoveMesh_def shifted_index_def nth_append
      min_def)

lemma node_keys_RemoveMesh:
  "map (\<lambda>j. ((i, j), GetMesh (Model_RemoveMesh M index) j))
       (map (shifted_index index) (filter (\<lambda>m. m \<noteq> index) ms))
   = map (\<lambda>(k, mesh). (shifted_key index k, mesh))
       (filter (\<lambda>(k, mesh). snd k \<noteq> index) (map (\<lambda>j. ((i, j), GetMesh M j)) ms))"
  by (induction ms) (simp_all add: GetMesh_RemoveMesh shifted_key_def)

lemma InstanceKeys_RemoveMesh:
  "InstanceKeys (Model_RemoveMesh M index)
     = map (\<lambda>(k, mesh). (shifted_key index k, mesh))
         (filter (\<lambda>(k, mesh). snd k \<noteq> index) (InstanceKeys M))"
proof -
  have r: "root (Model_RemoveMesh M index) = RemoveMesh_node index (root M)"
    by (simp add: Model_RemoveMesh_def)
  have "InstanceKeys (Model_RemoveMesh M index)
      = concat (map (\<lambda>node. map (\<lambda>j. ((GetId node, j), GetMesh (Model_RemoveMesh M index) j))
           (map (shifted_index index) (filter (\<lambda>m. m \<noteq> index) (meshIndices node))))
          (Enumerate (root M)))"
    by (simp add: InstanceKeys_def EnumerateMeshInstances_def r Enumerate_RemoveMesh_node
        map_concat comp_def GetKey_def GetId_RemoveMesh_node meshIndices_RemoveMesh_node)
  also have "\<dots> = concat (map (\<lambda>node. map (\<lambda>(k, mesh). (shifted_key index k, mesh))
           (filter (\<lambda>(k, mesh). snd k \<noteq> index)
              (map (\<lambda>j. ((GetId node, j), GetMesh M j)) (meshIndices node))))
          (Enumerate (root M)))"
    by (simp only: node_keys_RemoveMesh)
  also have "\<dots> = map (\<lambda>(k, mesh). (shifted_key index k, mesh))
         (filter (\<lambda>(k, mesh). snd k \<noteq> index) (InstanceKeys M))"
    by (simp add: InstanceKeys_def EnumerateMeshInstances_def map_concat filter_concat comp_def
        GetKey_def)
  finally show ?thesis .
qed

lemma node_ids_RemoveMesh:
  "map GetId (Enumerate (root (Model_RemoveMesh M index))) = map GetId (Enumerate (root M))"
  by (simp add: Model_RemoveMesh_def Enumerate_RemoveMesh_node comp_def GetId_RemoveMesh_node)

lemma InstanceKeys_two_mesh_model:
  "InstanceKeys two_mesh_model = [((0, 0), Some meshA), ((0, 1), Some meshB)]"
  by (simp add: InstanceKeys_def EnumerateMeshInstances_def two_mesh_model_def GetMesh_def
      array_get_def GetKey_def)

text \<open>
  Claim C6, as amended. \<open>Model.RemoveMesh (index)\<close> renumbers: the instances of the
  removed mesh disappear, an instance of a mesh below \<open>index\<close> keeps its key, and an
  instance of a mesh above \<open>index\<close> keeps its node identity and its mesh but gets the
  mesh index, and so the key, one lower. Node identities are unchanged, and the model's
  physical groups are not touched at all (they keep the keys they recorded before the
  renumbering).
\<close>

theorem RemoveMesh_instance_keys:
  "InstanceKeys (Model_RemoveMesh M index)
     = map (\<lambda>(k, mesh). (shifted_key index k, mesh))
         (filter (\<lambda>(k, mesh). snd k \<noteq> index) (InstanceKeys M))
   \<and> (snd k < index \<longrightarrow> shifted_key index k = k)
   \<and> (snd k > index \<longrightarrow> shifted_key index k = (fst k, snd k - 1))
   \<and> map GetId (Enumerate (root (Model_RemoveMesh M index))) = map GetId (Enumerate (root M))
   \<and> physicalGroups (Model_RemoveMesh M index) = physicalGroups M"
  using InstanceKeys_RemoveMesh [of M index] node_ids_RemoveMesh [of M index]
  by (simp add: shifted_key_def shifted_index_def Model_RemoveMesh_def)

theorem RemoveMesh_instance_keys_witness:
  "InstanceKeys (Model_RemoveMesh two_mesh_model 0) = [((0, 0), Some meshB)]
   \<and> InstanceKeys (Model_RemoveMesh two_mesh_model 1) = [((0, 0), Some meshA)]
   \<and> shifted_key 1 (0, 0) = (0, 0)
   \<and> shifted_key 0 (0, 1) = (0, 0)"
proof -
  note t0 = RemoveMesh_instance_keys [of two_mesh_model 0 "(0, 1)"]
  note t1 = RemoveMesh_instance_keys [of two_mesh_model 1 "(0, 0)"]
  have a: "InstanceKeys (Model_RemoveMesh two_mesh_model 0) = [((0, 0), Some meshB)]"
    using t0 by (simp add: InstanceKeys_two_mesh_model shifted_key_def shifted_index_def)
  have b: "InstanceKeys (Model_RemoveMesh two_mesh_model 1) = [((0, 0), Some meshA)]"
    using t1 by (simp add: InstanceKeys_two_mesh_model shifted_key_def shifted_index_def)
  have c: "shifted_key 1 (0, 0) = (0, 0)" using t1 by simp
  have d: "shifted_key 0 (0, 1) = (0, 0)" using t0 by simp
  from a b c d show ?thesis by simp
qed

text \<open>
  Claim C6 as stated fails: in the model with two meshes, removing mesh 0 changes the key
  of the instance of the other mesh from (0, 1) to (0, 0); that instance, which was in no
  group, is now found in the group \<open>inlet\<close> that had recorded the removed instance.
\<close>

theorem RemoveMesh_changes_other_key:
  "((0, 1), Some meshB) \<in> set (InstanceKeys two_mesh_model)
   \<and> InstanceKeys (Model_RemoveMesh two_mesh_model 0) = [((0, 0), Some meshB)]
   \<and> ((0, 1), Some meshB) \<notin> set (InstanceKeys (Model_RemoveMesh two_mesh_model 0))
   \<and> GetGroupsByMeshInstanceId two_mesh_model (Some (MeshInstanceId 0 1)) = []
   \<and> map GetName (GetGroupsByMeshInstanceId (Model_RemoveMesh two_mesh_model 0)
        (Some (MeshInstanceId 0 0))) = [''inlet'']"
proof -
  have a: "InstanceKeys (Model_RemoveMesh two_mesh_model 0) = [((0, 0), Some meshB)]"
    by (simp add: InstanceKeys_RemoveMesh InstanceKeys_two_mesh_model shifted_key_def
        shifted_index_def)
  have g: "physicalGroups (Model_RemoveMesh two_mesh_model 0)
             = [touch (new_PhysicalGroup ''inlet'') (0, 0)]"
    by (simp add: Model_RemoveMesh_def two_mesh_model_def)
  have b: "GetGroupsByMeshInstanceId two_mesh_model (Some (MeshInstanceId 0 1)) = []"
    by (simp add: GetGroupsByMeshInstanceId_def two_mesh_model_def ContainsMesh_def GetKey_def
        touch_def new_PhysicalGroup_def Let_def)
  have c: "map GetName (GetGroupsByMeshInstanceId (Model_RemoveMesh two_mesh_model 0)
        (Some (MeshInstanceId 0 0))) = [''inlet'']"
    by (simp add: GetGroupsByMeshInstanceId_def g ContainsMesh_def GetKey_def
        touch_def new_PhysicalGroup_def Let_def GetName_def)
  from a b c show ?thesis by (simp add: InstanceKeys_two_mesh_model)
qed


lemma touch_name: "name (touch g k) = name g"
  by (simp add: touch_def Let_def)

lemma AddMeshWithIndex_name: "name (AddMeshWithIndex g i f) = name g"
  by (auto simp: AddMeshWithIndex_def Let_def touch_name split: option.splits)

lemma AddFaces_loop_name: "name (AddFaces_loop g meshId i n) = name g"
  by (induction n arbitrary: g i) (simp_all add: AddMeshWithIndex_name)







section \<open>Properties of the writers and of the STL exporter\<close>

lemma and_then_Inr [simp]: "and_then (Inr a) f = f a"
  by (simp add: and_then_def)

lemma and_then_Inl [simp]: "and_then (Inl e) f = Inl e"
  by (simp add: and_then_def)

lemma writer_ok_new [simp]: "writer_ok (new_BinaryWriter n)"
  by (simp add: writer_ok_def new_BinaryWriter_def)

lemma WriteArrayBuffer_fits:
  "length (written w) + length bs \<le> byteLength w
   \<Longrightarrow> WriteArrayBuffer w bs = Inr (w\<lparr>written := written w @ bs\<rparr>)"
  by (simp add: WriteArrayBuffer_def)

lemma WriteArrayBuffer_ok: "WriteArrayBuffer w bs = Inr w1 \<Longrightarrow> writer_ok w1"
  by (auto simp: WriteArrayBuffer_def writer_ok_def split: if_splits)

lemma WriteArrayBuffer_Nil: "writer_ok w \<Longrightarrow> WriteArrayBuffer w [] = Inr w"
  by (simp add: WriteArrayBuffer_def writer_ok_def)

lemma WriteArrayBuffer_bind:
  assumes "\<And>w1. writer_ok w1 \<Longrightarrow> f w1 = WriteArrayBuffer w1 b"
  shows "and_then (WriteArrayBuffer w a) f = WriteArrayBuffer w (a @ b)"
proof (cases "WriteArrayBuffer w a")
  case (Inl e)
  then show ?thesis by (auto simp: WriteArrayBuffer_def split: if_splits)
next
  case (Inr w1)
  then have "f w1 = WriteArrayBuffer w1 b" using assms WriteArrayBuffer_ok by blast
  with Inr show ?thesis by (auto simp: WriteArrayBuffer_def split: if_splits)
qed

lemma WriteCharacters_eq:
  "writer_ok w \<Longrightarrow> WriteCharacters w c n = WriteArrayBuffer w (replicate n (of_nat c))"
proof (induction n arbitrary: w)
  case 0
  then show ?case by (simp add: WriteArrayBuffer_Nil)
next
  case (Suc n)
  have "and_then (WriteArrayBuffer w [of_nat c]) (\<lambda>w1. WriteCharacters w1 c n)
          = WriteArrayBuffer w ([of_nat c] @ replicate n (of_nat c))"
    by (rule WriteArrayBuffer_bind) (rule Suc.IH)
  then show ?case by (simp add: WriteUnsignedCharacter8_def)
qed

lemma WriteFloat32_bind:
  assumes "\<And>w1. writer_ok w1 \<Longrightarrow> g w1 = WriteArrayBuffer w1 b"
  shows "and_then (WriteFloat32 ops w x) g = WriteArrayBuffer w (le32 (float32 ops x) @ b)"
  unfolding WriteFloat32_def by (rule WriteArrayBuffer_bind) (rule assms)

lemma WriteFacet_eq: "WriteFacet ops w f = WriteArrayBuffer w (facet_bytes ops f)"
  unfolding WriteFacet_def
  apply (simp only: facet_bytes_def facet_words_def list.map concat.simps append_Nil2 append_assoc)
  apply (rule WriteFloat32_bind)+
  apply (simp add: WriteUnsignedInteger16_def le16_def)
  done

lemma WriteFacets_eq:
  "writer_ok w \<Longrightarrow> WriteFacets ops w fs = WriteArrayBuffer w (concat (map (facet_bytes ops) fs))"
proof (induction fs arbitrary: w)
  case Nil
  then show ?case by (simp add: WriteArrayBuffer_Nil)
next
  case (Cons f fs)
  have "and_then (WriteArrayBuffer w (facet_bytes ops f)) (\<lambda>w1. WriteFacets ops w1 fs)
          = WriteArrayBuffer w (facet_bytes ops f @ concat (map (facet_bytes ops) fs))"
    by (rule WriteArrayBuffer_bind) (rule Cons.IH)
  then show ?case by (simp add: WriteFacet_eq)
qed

lemma length_le32 [simp]: "length (le32 v) = 4"
  by (simp add: le32_def)

lemma length_le16 [simp]: "length (le16 v) = 2"
  by (simp add: le16_def)

lemma length_facet_bytes [simp]: "length (facet_bytes ops f) = 50"
  by (simp add: facet_bytes_def facet_words_def)

lemma length_concat_facet_bytes [simp]:
  "length (concat (map (facet_bytes ops) fs)) = 50 * length fs"
  by (induction fs) simp_all

lemma count_loop_facets:
  "count_loop MeshInstance_TriangleCount mis acc = Inr n
   \<Longrightarrow> \<exists>facets. facets_loop ops mis = Inr facets \<and> acc + length facets = n"
proof (induction mis arbitrary: acc)
  case Nil
  then show ?case by simp
next
  case (Cons mi mis)
  show ?case
  proof (cases "instance_mesh mi")
    case None
    then have "MeshInstance_TriangleCount mi = Inl TypeError"
      by (simp add: MeshInstance_TriangleCount_def)
    with Cons.prems show ?thesis by simp
  next
    case (Some m)
    then have "MeshInstance_TriangleCount mi = Inr (TriangleCount m)"
      by (simp add: MeshInstance_TriangleCount_def)
    with Cons.prems have "count_loop MeshInstance_TriangleCount mis (acc + TriangleCount m) = Inr n"
      by simp
    from Cons.IH [OF this] obtain more where
      "facets_loop ops mis = Inr more" "acc + TriangleCount m + length more = n" by blast
    with Some show ?thesis by (simp add: TriangleCount_def)
  qed
qed

lemma EM_facets:
  "EM_TriangleCount em = Inr n
   \<Longrightarrow> \<exists>facets. EM_EnumerateTrianglesWithNormals ops em = Inr facets \<and> length facets = n"
  using count_loop_facets [of "EM_EnumerateMeshInstances em" 0 n ops]
  by (simp add: EM_TriangleCount_def EM_EnumerateTrianglesWithNormals_def)

lemma ExportBinaryForModel_eq:
  assumes "EM_TriangleCount em = Inr n"
    and "EM_EnumerateTrianglesWithNormals ops em = Inr facets"
    and "length facets = n"
  shows "ExportBinaryForModel ops em files fileName
           = Inr (files @ [\<lparr>file_name = fileName,
                content = Some (replicate 80 0 @ le32 (of_nat n)
                                @ concat (map (facet_bytes ops) facets))\<rparr>])"
proof -
  let ?w0 = "new_BinaryWriter (84 + n * 50)"
  let ?w1 = "?w0\<lparr>written := replicate 80 0\<rparr>"
  let ?w2 = "?w0\<lparr>written := replicate 80 0 @ le32 (of_nat n)\<rparr>"
  let ?w3 = "?w0\<lparr>written := replicate 80 0 @ le32 (of_nat n) @ concat (map (facet_bytes ops) facets)\<rparr>"
  have "WriteCharacters ?w0 0 80 = WriteArrayBuffer ?w0 (replicate 80 (of_nat 0))"
    by (rule WriteCharacters_eq) simp
  then have s1: "WriteCharacters ?w0 0 80 = Inr ?w1"
    by (simp add: WriteArrayBuffer_fits new_BinaryWriter_def)
  have s2: "WriteUnsignedInteger32 ?w1 n = Inr ?w2"
    by (simp add: WriteUnsignedInteger32_def WriteArrayBuffer_fits new_BinaryWriter_def)
  have ok2: "writer_ok ?w2" by (simp add: writer_ok_def new_BinaryWriter_def)
  have "WriteFacets ops ?w2 facets = WriteArrayBuffer ?w2 (concat (map (facet_bytes ops) facets))"
    by (rule WriteFacets_eq [OF ok2])
  then have s3: "WriteFacets ops ?w2 facets = Inr ?w3"
    using assms(3) by (simp add: WriteArrayBuffer_fits new_BinaryWriter_def)
  have b: "GetBuffer ?w3 = replicate 80 0 @ le32 (of_nat n) @ concat (map (facet_bytes ops) facets)"
    using assms(3) by (simp add: GetBuffer_def new_BinaryWriter_def)
  show ?thesis
    unfolding ExportBinaryForModel_def Let_def
    by (simp add: assms(1,2) s1 s2 s3 b SetBufferContent_def new_ExportedFile_def)
qed

lemma read_le32_le32 [simp]: "read_le32 (le32 v) = v"
proof -
  let ?r = "(ucast (ucast v :: byte) OR push_bit 8 (ucast (ucast (drop_bit 8 v) :: byte))
        OR push_bit 16 (ucast (ucast (drop_bit 16 v) :: byte))
        OR push_bit 24 (ucast (ucast (drop_bit 24 v) :: byte))) :: 32 word"
  have "?r = v"
  proof (rule bit_word_eqI)
    fix n :: nat
    assume "n < LENGTH(32)"
    then have n: "n < 32" by simp
    consider "n < 8" | "8 \<le> n" "n < 16" | "16 \<le> n" "n < 24" | "24 \<le> n" "n < 32"
      using n by linarith
    then show "bit ?r n = bit v n"
      by cases (auto simp: bit_simps)
  qed
  then show ?thesis by (simp add: read_le32_def le32_def)
qed

lemma read_words_concat:
  "read_words (length ws) (concat (map le32 ws) @ rest) = ws"
  by (induction ws) simp_all

lemma read_facet:
  "read_words 12 (facet_bytes ops f) = facet_words ops f"
proof -
  have l: "length (facet_words ops f) = 12"
    by (simp add: facet_words_def)
  have "read_words (length (facet_words ops f)) (concat (map le32 (facet_words ops f)) @ [0, 0])
          = facet_words ops f"
    by (rule read_words_concat)
  then show ?thesis by (simp add: l facet_bytes_def [symmetric])
qed

lemma parse_facets_concat:
  "parse_facets (length fs) (concat (map (facet_bytes ops) fs)) = map (facet_words ops) fs"
  by (induction fs) (simp_all add: read_facet)

lemma unat_of_nat_32: "n < 2 ^ 32 \<Longrightarrow> unat (of_nat n :: 32 word) = n"
  by (simp add: unat_of_nat)

lemma ParseBinaryStl_roundtrip:
  assumes "length fs < 2 ^ 32"
  shows "ParseBinaryStl (replicate 80 0 @ le32 (of_nat (length fs)) @ concat (map (facet_bytes ops) fs))
           = Some (map (facet_words ops) fs)"
  using assms by (simp add: ParseBinaryStl_def unat_of_nat_32 parse_facets_concat)

lemma facet_bytes_explicit:
  "facet_bytes ops =
     (\<lambda>f. le32 (float32 ops (coord_x (facet_normal f)))
         @ le32 (float32 ops (coord_y (facet_normal f)))
         @ le32 (float32 ops (coord_z (facet_normal f)))
         @ le32 (float32 ops (coord_x (facet_v0 f)))
         @ le32 (float32 ops (coord_y (facet_v0 f)))
         @ le32 (float32 ops (coord_z (facet_v0 f)))
         @ le32 (float32 ops (coord_x (facet_v1 f)))
         @ le32 (float32 ops (coord_y (facet_v1 f)))
         @ le32 (float32 ops (coord_z (facet_v1 f)))
         @ le32 (float32 ops (coord_x (facet_v2 f)))
         @ le32 (float32 ops (coord_y (facet_v2 f)))
         @ le32 (float32 ops (coord_z (facet_v2 f)))
         @ [0, 0])"
  by (rule ext) (simp add: facet_bytes_def facet_words_def)

lemma facet_words_explicit:
  "facet_words ops =
     (\<lambda>f. [float32 ops (coord_x (facet_normal f)), float32 ops (coord_y (facet_normal f)),
           float32 ops (coord_z (facet_normal f)),
           float32 ops (coord_x (facet_v0 f)), float32 ops (coord_y (facet_v0 f)),
           float32 ops (coord_z (facet_v0 f)),
           float32 ops (coord_x (facet_v1 f)), float32 ops (coord_y (facet_v1 f)),
           float32 ops (coord_z (facet_v1 f)),
           float32 ops (coord_x (facet_v2 f)), float32 ops (coord_y (facet_v2 f)),
           float32 ops (coord_z (facet_v2 f))])"
  by (rule ext) (simp add: facet_words_def)

text \<open>
  Claim C3. For every exporter model whose triangle count is \<open>n\<close>, \<open>ExportBinaryForModel\<close>
  does not throw and appends one file of exactly 80 + 4 + 50 x n bytes: 80 zero bytes, the
  little-endian uint32 of \<open>n\<close>, then for each enumerated triangle the float32 patterns of
  the normal's x, y, z and of the x, y, z of the corners v0, v1, v2, in that order and each
  little-endian, followed by the two zero bytes of the uint16 attribute count. While \<open>n\<close>
  fits the uint32 field, the count read back from the file is \<open>n\<close> and reading the file
  back gives exactly the \<open>n\<close> triangles written, each as these twelve patterns. For the
  twelve-triangle cube that is 684 bytes and twelve triangles.
\<close>

theorem ExportBinaryForModel_layout:
  assumes "EM_TriangleCount em = Inr n"
  shows "\<exists>facets bytes.
           EM_EnumerateTrianglesWithNormals ops em = Inr facets \<and> length facets = n
         \<and> bytes = replicate 80 0 @ le32 (of_nat n)
             @ concat (map (\<lambda>f.
                   le32 (float32 ops (coord_x (facet_normal f)))
                 @ le32 (float32 ops (coord_y (facet_normal f)))
                 @ le32 (float32 ops (coord_z (facet_normal f)))
                 @ le32 (float32 ops (coord_x (facet_v0 f)))
                 @ le32 (float32 ops (coord_y (facet_v0 f)))
                 @ le32 (float32 ops (coord_z (facet_v0 f)))
                 @ le32 (float32 ops (coord_x (facet_v1 f)))
                 @ le32 (float32 ops (coord_y (facet_v1 f)))
                 @ le32 (float32 ops (coord_z (facet_v1 f)))
                 @ le32 (float32 ops (coord_x (facet_v2 f)))
                 @ le32 (float32 ops (coord_y (facet_v2 f)))
                 @ le32 (float32 ops (coord_z (facet_v2 f)))
                 @ [0, 0]) facets)
         \<and> ExportBinaryForModel ops em files fileName
             = Inr (files @ [\<lparr>file_name = fileName, content = Some bytes\<rparr>])
         \<and> length bytes = 80 + 4 + 50 * n
         \<and> take 80 bytes = replicate 80 0
         \<and> read_le32 (take 4 (drop 80 bytes)) = of_nat n
         \<and> (n < 2 ^ 32 \<longrightarrow> unat (read_le32 (take 4 (drop 80 bytes))) = n
              \<and> ParseBinaryStl bytes
                  = Some (map (\<lambda>f.
                      [float32 ops (coord_x (facet_normal f)), float32 ops (coord_y (facet_normal f)),
                       float32 ops (coord_z (facet_normal f)),
                       float32 ops (coord_x (facet_v0 f)), float32 ops (coord_y (facet_v0 f)),
                       float32 ops (coord_z (facet_v0 f)),
                       float32 ops (coord_x (facet_v1 f)), float32 ops (coord_y (facet_v1 f)),
                       float32 ops (coord_z (facet_v1 f)),
                       float32 ops (coord_x (facet_v2 f)), float32 ops (coord_y (facet_v2 f)),
                       float32 ops (coord_z (facet_v2 f))]) facets))"
proof -
  from EM_facets [OF assms] obtain facets where
    f: "EM_EnumerateTrianglesWithNormals ops em = Inr facets" and l: "length facets = n"
    by blast
  define bytes where
    "bytes = replicate 80 0 @ le32 (of_nat n) @ concat (map (facet_bytes ops) facets)"
  have e: "ExportBinaryForModel ops em files fileName
             = Inr (files @ [\<lparr>file_name = fileName, content = Some bytes\<rparr>])"
    unfolding bytes_def by (rule ExportBinaryForModel_eq [OF assms f l])
  have len: "length bytes = 80 + 4 + 50 * n" using l by (simp add: bytes_def)
  have h: "take 80 bytes = replicate 80 0" by (simp add: bytes_def)
  have c: "read_le32 (take 4 (drop 80 bytes)) = of_nat n" by (simp add: bytes_def)
  have p: "n < 2 ^ 32 \<longrightarrow> unat (read_le32 (take 4 (drop 80 bytes))) = n
             \<and> ParseBinaryStl bytes = Some (map (facet_words ops) facets)"
    using ParseBinaryStl_roundtrip [of facets ops] l
    by (simp add: c unat_of_nat_32 bytes_def)
  from f l e len h c p bytes_def show ?thesis
    unfolding facet_bytes_explicit facet_words_explicit by blast
qed

lemma copy_triangles_triangles: "triangles (copy_triangles m ts) = triangles m @ ts"
  unfolding copy_triangles_def by (induction ts arbitrary: m) (simp_all add: AddTriangle_def)

lemma test_cube_TriangleCount: "TriangleCount (test_cube_mesh k) = 12"
  by (simp add: TriangleCount_def test_cube_mesh_def copy_triangles_triangles new_Mesh_def
      AddVertex_def)

lemma test_cube_instances:
  "EnumerateMeshInstances (test_cube_model g)
     = [MeshInstance (MeshInstanceId 1 0) (Node 1 g [0] []) (Some (test_cube_mesh 0))]"
  by (simp add: EnumerateMeshInstances_def test_cube_model_def place_mesh_def AddMaterial_def
      Model_AddMesh_def new_Model_def AddChildNode_root_def AddMeshIndex_def Node_SetName_def
      new_Node_def GetMesh_def array_get_def Let_def)

lemma cube_EM_TriangleCount: "EM_TriangleCount cube_exporter_model = Inr 12"
  by (simp add: EM_TriangleCount_def EM_EnumerateMeshInstances_def cube_exporter_model_def
      new_ExporterModel_def new_ExporterSettings_def test_cube_instances
      MeshInstance_TriangleCount_def test_cube_TriangleCount)

lemma cube_facets:
  "EM_EnumerateTrianglesWithNormals example_ops cube_exporter_model
     = Inr (map (facetOf example_ops
                   (MeshInstance (MeshInstanceId 1 0) (Node 1 ''cube'' [0] []) (Some (test_cube_mesh 0))))
              (triangles (test_cube_mesh 0)))"
  by (simp add: EM_EnumerateTrianglesWithNormals_def EM_EnumerateMeshInstances_def
      cube_exporter_model_def new_ExporterModel_def new_ExporterSettings_def test_cube_instances)

lemma test_cube_vertices:
  "vertices (test_cube_mesh k)
     = [Coord3D (- 1) (- 1) (- 1), Coord3D 1 (- 1) (- 1), Coord3D 1 1 (- 1), Coord3D (- 1) 1 (- 1),
        Coord3D (- 1) (- 1) 1, Coord3D 1 (- 1) 1, Coord3D 1 1 1, Coord3D (- 1) 1 1]"
  by (simp add: test_cube_mesh_def copy_triangles_def AddTriangle_def AddVertex_def new_Mesh_def)

lemma test_cube_first_triangle:
  "hd (triangles (test_cube_mesh k)) = Triangle 0 1 2 0 0 0 k 0"
  by (simp add: test_cube_mesh_def copy_triangles_def AddTriangle_def AddVertex_def new_Mesh_def)

lemma test_cube_triangles_ne: "triangles (test_cube_mesh k) \<noteq> []"
  by (simp add: test_cube_mesh_def copy_triangles_def AddTriangle_def AddVertex_def new_Mesh_def)

lemma cube_first_facet:
  "hd (map (facetOf example_ops
             (MeshInstance (MeshInstanceId 1 0) (Node 1 ''cube'' [0] []) (Some (test_cube_mesh 0))))
          (triangles (test_cube_mesh 0)))
     = Facet (Coord3D (- 1) (- 1) (- 1)) (Coord3D 1 (- 1) (- 1)) (Coord3D 1 1 (- 1)) (Coord3D 0 0 0)"
  by (simp add: hd_map test_cube_triangles_ne test_cube_first_triangle example_ops_def
      test_cube_vertices)

theorem ExportBinaryForModel_layout_witness:
  "\<exists>bytes parsed.
      EM_TriangleCount cube_exporter_model = Inr 12
    \<and> ExportBinaryForModel example_ops cube_exporter_model [] ''model.stl''
        = Inr [\<lparr>file_name = ''model.stl'', content = Some bytes\<rparr>]
    \<and> length bytes = 684
    \<and> ParseBinaryStl bytes = Some parsed
    \<and> length parsed = 12
    \<and> hd parsed = [0, 0, 0, 0xBF800000, 0xBF800000, 0xBF800000,
                    0x3F800000, 0xBF800000, 0xBF800000, 0x3F800000, 0x3F800000, 0xBF800000]"
proof -
  from ExportBinaryForModel_layout [OF cube_EM_TriangleCount, of example_ops "[]" "''model.stl''"]
  obtain facets bytes where
    f: "EM_EnumerateTrianglesWithNormals example_ops cube_exporter_model = Inr facets"
    and l: "length facets = 12"
    and e: "ExportBinaryForModel example_ops cube_exporter_model [] ''model.stl''
              = Inr [\<lparr>file_name = ''model.stl'', content = Some bytes\<rparr>]"
    and n: "length bytes = 684"
    and p: "ParseBinaryStl bytes
              = Some (map (\<lambda>f.
                  [float32 example_ops (coord_x (facet_normal f)), float32 example_ops (coord_y (facet_normal f)),
                   float32 example_ops (coord_z (facet_normal f)),
                   float32 example_ops (coord_x (facet_v0 f)), float32 example_ops (coord_y (facet_v0 f)),
                   float32 example_ops (coord_z (facet_v0 f)),
                   float32 example_ops (coord_x (facet_v1 f)), float32 example_ops (coord_y (facet_v1 f)),
                   float32 example_ops (coord_z (facet_v1 f)),
                   float32 example_ops (coord_x (facet_v2 f)), float32 example_ops (coord_y (facet_v2 f)),
                   float32 example_ops (coord_z (facet_v2 f))]) facets)"
    by auto
  from f have fs: "facets = map (facetOf example_ops
             (MeshInstance (MeshInstanceId 1 0) (Node 1 ''cube'' [0] []) (Some (test_cube_mesh 0))))
          (triangles (test_cube_mesh 0))"
    by (simp add: cube_facets)
  have ne: "facets \<noteq> []" using l by auto
  have h: "hd facets
     = Facet (Coord3D (- 1) (- 1) (- 1)) (Coord3D 1 (- 1) (- 1)) (Coord3D 1 1 (- 1)) (Coord3D 0 0 0)"
    unfolding fs by (rule cube_first_facet)
  have fl: "float32 example_ops 0 = 0" "float32 example_ops 1 = 0x3F800000"
    "float32 example_ops (- 1) = 0xBF800000"
    by (simp_all add: example_ops_def)
  show ?thesis
    using e n p l cube_EM_TriangleCount ne h fl by (simp add: hd_map)
qed

lemma no_instances:
  assumes "MeshInstanceCount M = 0"
  shows "EnumerateMeshInstances M = []"
proof -
  from assms have "\<forall>node \<in> set (Enumerate (root M)). meshIndices node = []"
    by (auto simp: MeshInstanceCount_def MeshIndexCount_def sum_list_eq_0_iff)
  then show ?thesis by (simp add: EnumerateMeshInstances_def)
qed

lemma ExportTextForModel_empty:
  assumes "EM_EnumerateMeshInstances em = []"
  shows "ExportTextForModel ops em files fileName modelName
           = Inr (files @ [\<lparr>file_name = fileName,
                content = Some (Utf8StringToArrayBuffer
                  (''solid '' @ modelName @ line_feed @ ''endsolid '' @ modelName @ line_feed))\<rparr>])"
  using assms
  by (simp add: ExportTextForModel_def EM_TriangleCount_def EM_EnumerateTrianglesWithNormals_def
      Let_def WriteLine_def new_TextWriter_def GetText_def SetTextContent_def new_ExportedFile_def
      line_feed_def)

text \<open>
  Claim C7. For a model with no mesh instance and no request to export physical groups,
  the STL exporter's \<open>ExportContent\<close> does not throw and adds exactly one file,
  \<open>model.stl\<close>: in the text format the lines \<open>solid Model\<close> and \<open>endsolid Model\<close> with no
  facet between them, in the binary format 84 bytes, the zero header and the triangle
  count 0.
\<close>

theorem empty_model_export:
  assumes "MeshInstanceCount (GetModel em) = 0"
    and "exportPhysicalGroups (settings em) \<noteq> Some True"
  shows "ExporterStl_ExportContent ops em Text files
           = Inr (Finished (files @ [\<lparr>file_name = ''model.stl'',
                content = Some (Utf8StringToArrayBuffer
                  (''solid Model'' @ line_feed @ ''endsolid Model'' @ line_feed))\<rparr>]))
       \<and> ExporterStl_ExportContent ops em Binary files
           = Inr (Finished (files @ [\<lparr>file_name = ''model.stl'',
                content = Some (replicate 80 0 @ le32 0)\<rparr>]))
       \<and> length (replicate 80 (0 :: byte) @ le32 0) = 84"
proof -
  from assms(1) have none: "EnumerateMeshInstances (model em) = []"
    by (simp add: no_instances GetModel_def)
  then have em: "EM_EnumerateMeshInstances em = []"
    by (simp add: EM_EnumerateMeshInstances_def)
  have mt: "Model_TriangleCount (model em) = Inr 0"
    by (simp add: Model_TriangleCount_def none)
  have tc: "EM_TriangleCount em = Inr 0" by (simp add: EM_TriangleCount_def em)
  have fs: "EM_EnumerateTrianglesWithNormals ops em = Inr []"
    by (simp add: EM_EnumerateTrianglesWithNormals_def em)
  have t: "ExportText ops em files
           = Inr (files @ [\<lparr>file_name = ''model.stl'',
                content = Some (Utf8StringToArrayBuffer
                  (''solid Model'' @ line_feed @ ''endsolid Model'' @ line_feed))\<rparr>])"
    unfolding ExportText_def using ExportTextForModel_empty [OF em, of ops files "''model.stl''" "''Model''"]
    by simp
  have b: "ExportBinary ops em files
           = Inr (files @ [\<lparr>file_name = ''model.stl'', content = Some (replicate 80 0 @ le32 0)\<rparr>])"
    unfolding ExportBinary_def using ExportBinaryForModel_eq [OF tc fs, of files "''model.stl''"]
    by simp
  from assms(2) mt t b show ?thesis
    by (simp add: ExporterStl_ExportContent_def GetModel_def Let_def)
qed

theorem empty_model_export_witness:
  "MeshInstanceCount (GetModel (new_ExporterModel new_Model new_ExporterSettings)) = 0
   \<and> ExporterStl_ExportContent example_ops (new_ExporterModel new_Model new_ExporterSettings) Text []
       = Inr (Finished [\<lparr>file_name = ''model.stl'',
                content = Some (Utf8StringToArrayBuffer
                  (''solid Model'' @ line_feed @ ''endsolid Model'' @ line_feed))\<rparr>])
   \<and> ExporterStl_ExportContent example_ops (new_ExporterModel new_Model new_ExporterSettings) Binary []
       = Inr (Finished [\<lparr>file_name = ''model.stl'', content = Some (replicate 80 0 @ le32 0)\<rparr>])"
proof -
  let ?em = "new_ExporterModel new_Model new_ExporterSettings"
  have a: "MeshInstanceCount (GetModel ?em) = 0"
    by (simp add: MeshInstanceCount_def GetModel_def new_ExporterModel_def new_Model_def
        MeshIndexCount_def)
  have b: "exportPhysicalGroups (settings ?em) \<noteq> Some True"
    by (simp add: new_ExporterModel_def new_ExporterSettings_def)
  from empty_model_export [OF a b, of example_ops "[]"] a show ?thesis by simp
qed

section \<open>Properties of the glTF container and of the packaging\<close>

lemma AlignToBoundary_dvd: "4 dvd AlignToBoundary n"
  unfolding AlignToBoundary_def Let_def by presburger

lemma AlignToBoundary_ge: "n \<le> AlignToBoundary n"
  unfolding AlignToBoundary_def Let_def by presburger

lemma AlignToBoundary_less: "AlignToBoundary n < n + 4"
  unfolding AlignToBoundary_def Let_def by presburger

lemma add_byteLengths_eq: "add_byteLengths len ts = len + length (concat ts)"
  by (induction ts arbitrary: len) simp_all

lemma WriteArrayBuffers_eq:
  "writer_ok w \<Longrightarrow> WriteArrayBuffers w ts = WriteArrayBuffer w (concat ts)"
proof (induction ts arbitrary: w)
  case Nil
  then show ?case by (simp add: WriteArrayBuffer_Nil)
next
  case (Cons t ts)
  have "and_then (WriteArrayBuffer w t) (\<lambda>w1. WriteArrayBuffers w1 ts)
          = WriteArrayBuffer w (t @ concat ts)"
    by (rule WriteArrayBuffer_bind) (rule Cons.IH)
  then show ?case by simp
qed

lemma WriteArrayBuffer_step:
  "length pre + length bs \<le> N
   \<Longrightarrow> WriteArrayBuffer \<lparr>byteLength = N, written = pre\<rparr> bs
         = Inr \<lparr>byteLength = N, written = pre @ bs\<rparr>"
  by (simp add: WriteArrayBuffer_def)

lemma WriteCharacters_step:
  "length pre + n \<le> N
   \<Longrightarrow> WriteCharacters \<lparr>byteLength = N, written = pre\<rparr> c n
         = Inr \<lparr>byteLength = N, written = pre @ replicate n (of_nat c)\<rparr>"
proof -
  assume a: "length pre + n \<le> N"
  then have "writer_ok \<lparr>byteLength = N, written = pre\<rparr>" by (simp add: writer_ok_def)
  then show ?thesis using a by (simp add: WriteCharacters_eq WriteArrayBuffer_step)
qed

lemma WriteArrayBuffers_step:
  "length pre + length (concat ts) \<le> N
   \<Longrightarrow> WriteArrayBuffers \<lparr>byteLength = N, written = pre\<rparr> ts
         = Inr \<lparr>byteLength = N, written = pre @ concat ts\<rparr>"
proof -
  assume a: "length pre + length (concat ts) \<le> N"
  then have "writer_ok \<lparr>byteLength = N, written = pre\<rparr>" by (simp add: writer_ok_def)
  then show ?thesis using a by (simp add: WriteArrayBuffers_eq WriteArrayBuffer_step)
qed

lemma WriteUnsignedInteger32_step:
  "length pre + 4 \<le> N
   \<Longrightarrow> WriteUnsignedInteger32 \<lparr>byteLength = N, written = pre\<rparr> val
         = Inr \<lparr>byteLength = N, written = pre @ le32 (of_nat val)\<rparr>"
  by (simp add: WriteUnsignedInteger32_def WriteArrayBuffer_step)

lemma ExportBinaryContent_eq:
  "ExportBinaryContent mainBuffer textureBuffers stringify files
     = Inr (files @ [\<lparr>file_name = ''model.glb'',
          content = Some (glb_bytes
            (stringify (AlignToBoundary (length (mainBuffer @ concat textureBuffers))))
            (mainBuffer @ concat textureBuffers))\<rparr>])"
proof -
  define ba where "ba = AlignToBoundary (length mainBuffer + length (concat textureBuffers))"
  define json where "json = stringify ba"
  define ja where "ja = AlignToBoundary (length json)"
  have jl: "length json \<le> ja" by (simp add: ja_def AlignToBoundary_ge)
  have bl: "length mainBuffer + length (concat textureBuffers) \<le> ba"
    by (simp add: ba_def AlignToBoundary_ge)
  have g: "glb_bytes json (mainBuffer @ concat textureBuffers)
      = le32 0x46546C67 @ le32 2 @ le32 (of_nat (12 + 8 + ja + 8 + ba))
         @ le32 (of_nat ja) @ le32 0x4E4F534A @ json @ replicate (ja - length json) 32
         @ le32 (of_nat ba) @ le32 0x004E4942 @ (mainBuffer @ concat textureBuffers)
         @ replicate (ba - (length mainBuffer + length (concat textureBuffers))) 0"
    by (simp add: glb_bytes_def Let_def ja_def ba_def)
  have len: "length (glb_bytes json (mainBuffer @ concat textureBuffers)) = 12 + 8 + ja + 8 + ba"
    unfolding g using jl bl by simp
  have ne: "glb_bytes json (mainBuffer @ concat textureBuffers) \<noteq> []"
    using len by auto
  have "ExportBinaryContent mainBuffer textureBuffers stringify files
      = Inr (files @ [SetBufferContent (new_ExportedFile ''model.glb'')
               (GetBuffer \<lparr>byteLength = 12 + 8 + ja + 8 + ba,
                  written = glb_bytes json (mainBuffer @ concat textureBuffers)\<rparr>)])"
    unfolding ExportBinaryContent_def Let_def add_byteLengths_eq ba_def [symmetric]
      json_def [symmetric] ja_def [symmetric] new_BinaryWriter_def g
    using jl bl
    by (simp add: WriteUnsignedInteger32_step WriteArrayBuffer_step WriteCharacters_step
        WriteArrayBuffers_step)
  then show ?thesis
    using ne len
    by (simp add: GetBuffer_def SetBufferContent_def new_ExportedFile_def json_def ba_def)
qed


lemma dvd4_unat_of_nat: "4 dvd n \<Longrightarrow> 4 dvd unat (of_nat n :: 32 word)"
  by (simp add: unat_of_nat dvd_mod)

text \<open>
  Claim C4. For every main buffer, list of texture buffers and JSON serialisation,
  \<open>ExportBinaryContent\<close> does not throw and appends one file \<open>model.glb\<close> laid out as:
  the 12-byte header (magic 0x46546C67, version 2, the total length), the JSON chunk (its
  length, the tag 0x4E4F534A, the JSON text padded with spaces), the binary chunk (its
  length, the tag 0x004E4942, the main buffer and the texture buffers padded with zero
  bytes). The total length and both chunk lengths are multiples of 4, each chunk's
  declared length is the length of its padded payload, and the declared total is the
  file's length; the fields are uint32, so "is" means modulo \<open>2 ^ 32\<close>, and equality
  as numbers holds while the file is shorter than \<open>2 ^ 32\<close> bytes.
\<close>

theorem glb_container_layout:
  "\<exists>bin ba json ja bytes.
      bin = mainBuffer @ concat textureBuffers
    \<and> ba = AlignToBoundary (length bin)
    \<and> json = stringify ba
    \<and> ja = AlignToBoundary (length json)
    \<and> ExportBinaryContent mainBuffer textureBuffers stringify files
        = Inr (files @ [\<lparr>file_name = ''model.glb'', content = Some bytes\<rparr>])
    \<and> bytes = le32 0x46546C67 @ le32 2 @ le32 (of_nat (length bytes))
              @ le32 (of_nat ja) @ le32 0x4E4F534A @ json @ replicate (ja - length json) 32
              @ le32 (of_nat ba) @ le32 0x004E4942 @ bin @ replicate (ba - length bin) 0
    \<and> length bytes = 12 + (8 + ja) + (8 + ba)
    \<and> length (json @ replicate (ja - length json) (32 :: byte)) = ja
    \<and> length (bin @ replicate (ba - length bin) (0 :: byte)) = ba
    \<and> 4 dvd length bytes \<and> 4 dvd ja \<and> 4 dvd ba
    \<and> 4 dvd unat (of_nat (length bytes) :: 32 word)
    \<and> 4 dvd unat (of_nat ja :: 32 word) \<and> 4 dvd unat (of_nat ba :: 32 word)
    \<and> (length bytes < 2 ^ 32 \<longrightarrow>
          unat (of_nat (length bytes) :: 32 word) = length bytes
        \<and> unat (of_nat ja :: 32 word) = ja \<and> unat (of_nat ba :: 32 word) = ba)"
proof -
  define bin where "bin = mainBuffer @ concat textureBuffers"
  define ba where "ba = AlignToBoundary (length bin)"
  define json where "json = stringify ba"
  define ja where "ja = AlignToBoundary (length json)"
  define bytes where "bytes = glb_bytes json bin"
  have jl: "length json \<le> ja" by (simp add: ja_def AlignToBoundary_ge)
  have bl: "length bin \<le> ba" by (simp add: ba_def AlignToBoundary_ge)
  have dj: "4 dvd ja" by (simp add: ja_def AlignToBoundary_dvd)
  have db: "4 dvd ba" by (simp add: ba_def AlignToBoundary_dvd)
  have len: "length bytes = 12 + (8 + ja) + (8 + ba)"
    using jl bl by (simp add: bytes_def glb_bytes_def Let_def ja_def [symmetric] ba_def [symmetric])
  have e: "ExportBinaryContent mainBuffer textureBuffers stringify files
        = Inr (files @ [\<lparr>file_name = ''model.glb'', content = Some bytes\<rparr>])"
    by (simp add: ExportBinaryContent_eq bytes_def json_def ba_def bin_def)
  have lay: "bytes = le32 0x46546C67 @ le32 2 @ le32 (of_nat (length bytes))
              @ le32 (of_nat ja) @ le32 0x4E4F534A @ json @ replicate (ja - length json) 32
              @ le32 (of_nat ba) @ le32 0x004E4942 @ bin @ replicate (ba - length bin) 0"
    unfolding len
    by (simp add: bytes_def glb_bytes_def Let_def ja_def [symmetric] ba_def [symmetric] add.assoc)
  have dl: "4 dvd length bytes" unfolding len using dj db by presburger
  have pj: "length (json @ replicate (ja - length json) (32 :: byte)) = ja" using jl by simp
  have pb: "length (bin @ replicate (ba - length bin) (0 :: byte)) = ba" using bl by simp
  have small: "length bytes < 2 ^ 32 \<longrightarrow>
          unat (of_nat (length bytes) :: 32 word) = length bytes
        \<and> unat (of_nat ja :: 32 word) = ja \<and> unat (of_nat ba :: 32 word) = ba"
  proof (intro impI conjI)
    assume a: "length bytes < 2 ^ 32"
    show "unat (of_nat (length bytes) :: 32 word) = length bytes"
      by (rule unat_of_nat_32 [OF a])
    from a len have "ja < 2 ^ 32" by linarith
    then show "unat (of_nat ja :: 32 word) = ja" by (rule unat_of_nat_32)
    from a len have "ba < 2 ^ 32" by linarith
    then show "unat (of_nat ba :: 32 word) = ba" by (rule unat_of_nat_32)
  qed
  note ul = dvd4_unat_of_nat [OF dl] and uj = dvd4_unat_of_nat [OF dj]
    and ub = dvd4_unat_of_nat [OF db]
  show ?thesis
    apply (rule exI [of _ bin])
    apply (rule exI [of _ ba])
    apply (rule exI [of _ json])
    apply (rule exI [of _ ja])
    apply (rule exI [of _ bytes])
    apply (intro conjI)
    apply (rule bin_def)
    apply (rule ba_def)
    apply (rule json_def)
    apply (rule ja_def)
    apply (rule e)
    apply (rule lay)
    apply (rule len)
    apply (rule pj)
    apply (rule pb)
    apply (rule dl)
    apply (rule dj)
    apply (rule db)
    apply (rule ul)
    apply (rule uj)
    apply (rule ub)
    apply (rule small)
    done
qed

theorem glb_container_layout_witness:
  "ExportBinaryContent [1, 2, 3, 4, 5] [[6]] (\<lambda>byteLength. [123, 125]) []
     = Inr [\<lparr>file_name = ''model.glb'',
             content = Some (le32 0x46546C67 @ le32 2 @ le32 40
               @ le32 4 @ le32 0x4E4F534A @ [123, 125, 32, 32]
               @ le32 8 @ le32 0x004E4942 @ [1, 2, 3, 4, 5, 6, 0, 0])\<rparr>]
   \<and> (40 :: nat) < 2 ^ 32 \<and> unat (40 :: 32 word) = 40"
proof -
  from glb_container_layout [of "[1, 2, 3, 4, 5]" "[[6]]" "\<lambda>byteLength. [123, 125]" "[]"]
  obtain bin ba json ja bytes where
    bin: "bin = [1, 2, 3, 4, 5] @ concat [[6 :: byte]]"
    and ba: "ba = AlignToBoundary (length bin)"
    and json: "json = [123, 125 :: byte]"
    and ja: "ja = AlignToBoundary (length json)"
    and e: "ExportBinaryContent [1, 2, 3, 4, 5] [[6]] (\<lambda>byteLength. [123, 125]) []
        = Inr ([] @ [\<lparr>file_name = ''model.glb'', content = Some bytes\<rparr>])"
    and lay: "bytes = le32 0x46546C67 @ le32 2 @ le32 (of_nat (length bytes))
              @ le32 (of_nat ja) @ le32 0x4E4F534A @ json @ replicate (ja - length json) 32
              @ le32 (of_nat ba) @ le32 0x004E4942 @ bin @ replicate (ba - length bin) 0"
    and len: "length bytes = 12 + (8 + ja) + (8 + ba)"
    by blast
  have ba8: "ba = 8" by (simp add: ba bin AlignToBoundary_def)
  have ja4: "ja = 4" by (simp add: ja json AlignToBoundary_def)
  have l40: "length bytes = 40" by (simp add: len ba8 ja4)
  have "bytes = le32 0x46546C67 @ le32 2 @ le32 40
               @ le32 4 @ le32 0x4E4F534A @ [123, 125, 32, 32]
               @ le32 8 @ le32 0x004E4942 @ [1, 2, 3, 4, 5, 6, 0, 0]"
    by (subst lay) (simp add: l40 ba8 ja4 json bin numeral_2_eq_2)
  with e show ?thesis by simp
qed

lemma onSuccess_one:
  "onSuccess [file]
     = Some [CloseProgressDialog,
             DownloadArrayBufferAsFile (FileBuffer (content file)) (file_name file)]"
  by (simp add: onSuccess_def)

lemma filesInZip_loop_plain:
  assumes "distinct (map file_name files)"
    and "fst ` set acc \<inter> file_name ` set files = {}"
    and "list_all (\<lambda>file. \<not> is_array_index (file_name file) \<and> file_name file \<noteq> ''__proto__'') files"
  shows "filesInZip_loop acc files
           = Some (acc @ map (\<lambda>file. (file_name file, Uint8Array_of (content file))) files)"
  using assms
proof (induction files arbitrary: acc)
  case Nil
  then show ?case by simp
next
  case (Cons f files)
  from Cons.prems have new: "file_name f \<notin> fst ` set acc" by auto
  from Cons.prems have plain: "\<not> is_array_index (file_name f)" "file_name f \<noteq> ''__proto__''"
    by simp_all
  have s: "object_set acc (file_name f) (Uint8Array_of (content f))
             = Some (acc @ [(file_name f, Uint8Array_of (content f))])"
    using new plain by (simp add: object_set_def)
  have d: "fst ` set (acc @ [(file_name f, Uint8Array_of (content f))]) \<inter> file_name ` set files = {}"
    using Cons.prems by auto
  from Cons.prems have "distinct (map file_name files)"
    and "list_all (\<lambda>file. \<not> is_array_index (file_name file) \<and> file_name file \<noteq> ''__proto__'') files"
    by simp_all
  from Cons.IH [OF this(1) d this(2)] show ?case by (simp add: s)
qed

lemma onSuccess_many:
  assumes "length files > 1"
    and "distinct (map file_name files)"
    and "list_all (\<lambda>file. \<not> is_array_index (file_name file) \<and> file_name file \<noteq> ''__proto__'') files"
  shows "onSuccess files
           = Some [CloseProgressDialog,
                   DownloadArrayBufferAsFile
                     (ZipArchive (map (\<lambda>file. (file_name file, Uint8Array_of (content file))) files))
                     ''model.zip'']"
  using assms filesInZip_loop_plain [of files "[]"]
  by (auto simp: onSuccess_def filesInZip_def)

lemma filesInZip_property_order:
  "filesInZip [\<lparr>file_name = ''b.stl'', content = Some [1]\<rparr>, \<lparr>file_name = ''7'', content = Some [2]\<rparr>,
               \<lparr>file_name = ''10'', content = Some [3]\<rparr>, \<lparr>file_name = ''2'', content = None\<rparr>,
               \<lparr>file_name = ''b.stl'', content = Some [4]\<rparr>]
     = Some [(''2'', []), (''7'', [2]), (''10'', [3]), (''b.stl'', [4])]"
  by (simp add: filesInZip_def object_set_def is_array_index_def is_digit_def decimal_value_def
      Uint8Array_of_def)

text \<open>
  Claim C8, evaluated on the code. When the export pass ends without a file, the callbacks
  that \<open>ModelExporterUI.ExportModel\<close> hands to the exporter only close the progress
  dialog: \<open>onSuccess\<close> with an empty list and \<open>onError\<close> show no message and deliver
  nothing, so the caller sees no "nothing to export" error. The \<open>onError\<close> callback of
  the Simulate button, for the same call, closes the dialog and shows a message.
\<close>

theorem ExportModel_zero_files_silent:
  "onSuccess [] = Some [CloseProgressDialog]
   \<and> onError = [CloseProgressDialog]
   \<and> Simulate_onError
       = [CloseProgressDialog,
          ShowMessageDialog ''Simulation Error'' ''Failed to export physical groups.'']"
  by (simp add: onSuccess_def onError_def Simulate_onError_def)

section \<open>What the group export does\<close>

lemma sanitize_inlet: "sanitize ''inlet'' = ''inlet''"
  by (simp add: sanitize_def sanitize_char_def Let_def)

lemma sanitize_wall: "sanitize ''wall'' = ''wall''"
  by (simp add: sanitize_def sanitize_char_def Let_def)

lemma sanitize_non_ascii: "sanitize [CHR 0xC3, CHR 0xA9, CHR ''A'', CHR '' '', CHR ''1''] = ''_a_1''"
  by code_simp

lemma test_cube_MeshInstanceCount: "MeshInstanceCount (test_cube_model g) = 1"
  by (simp add: MeshInstanceCount_def MeshIndexCount_def test_cube_model_def place_mesh_def
      AddMaterial_def Model_AddMesh_def new_Model_def AddChildNode_root_def AddMeshIndex_def
      Node_SetName_def new_Node_def Let_def)

lemma test_cube_Model_TriangleCount: "Model_TriangleCount (test_cube_model g) = Inr 12"
  by (simp add: Model_TriangleCount_def test_cube_instances MeshInstance_TriangleCount_def
      test_cube_TriangleCount)

lemma cube_export_binary:
  assumes "isMeshVisible s (MeshInstanceId 1 0)"
  shows "ExportBinaryForModel ops (new_ExporterModel (test_cube_model g) s) files fileName
           = Inr (files @ [\<lparr>file_name = fileName, content = Some (cube_stl_bytes ops g)\<rparr>])"
proof -
  let ?em = "new_ExporterModel (test_cube_model g) s"
  let ?mi = "MeshInstance (MeshInstanceId 1 0) (Node 1 g [0] []) (Some (test_cube_mesh 0))"
  have i: "EM_EnumerateMeshInstances ?em = [?mi]"
    using assms by (simp add: EM_EnumerateMeshInstances_def new_ExporterModel_def test_cube_instances)
  have c: "EM_TriangleCount ?em = Inr 12"
    by (simp add: EM_TriangleCount_def i MeshInstance_TriangleCount_def test_cube_TriangleCount)
  have f: "EM_EnumerateTrianglesWithNormals ops ?em
             = Inr (map (facetOf ops ?mi) (triangles (test_cube_mesh 0)))"
    by (simp add: EM_EnumerateTrianglesWithNormals_def i)
  have l: "length (map (facetOf ops ?mi) (triangles (test_cube_mesh 0))) = 12"
    using test_cube_TriangleCount [of 0] by (simp add: TriangleCount_def)
  from ExportBinaryForModel_eq [OF c f l, of files fileName] show ?thesis
    by (simp add: cube_stl_bytes_def)
qed

lemma group_step_binary:
  assumes "isMeshVisible s (MeshInstanceId 1 0)" and "i \<in> set chosen"
  shows "group_step ops s Binary only chosen True (files, k, U) (i, g)
           = Inr (files @ [\<lparr>file_name = sanitize (GetName g) @ ''.stl'',
                            content = Some (cube_stl_bytes ops (GetName g))\<rparr>], Suc k, U)"
proof -
  have v: "isMeshVisible (filtered_settings s) (MeshInstanceId 1 0)"
    using assms(1) by (simp add: filtered_settings_def)
  show ?thesis
    using assms(2)
    by (simp add: group_step_def Let_def test_cube_Model_TriangleCount test_cube_MeshInstanceCount
        cube_export_binary [OF v])
qed

lemma length_cube_stl_bytes: "length (cube_stl_bytes ops g) = 684"
proof -
  have "length (triangles (test_cube_mesh 0)) = 12"
    using test_cube_TriangleCount [of 0] by (simp add: TriangleCount_def)
  then show ?thesis
    unfolding cube_stl_bytes_def
    by (simp only: length_append length_replicate length_le32 length_concat_facet_bytes
        length_map)
qed

lemma count_cube_stl_bytes: "read_le32 (take 4 (drop 80 (cube_stl_bytes ops g))) = 12"
  by (simp add: cube_stl_bytes_def)

lemma AddFaces_loop_faces_inlet:
  "GetMeshFaceIndices (AddFaces_loop (new_PhysicalGroup ''inlet'') (MeshInstanceId 0 0) 0 5)
     (Some (MeshInstanceId 0 0)) = [0, 1, 2, 3, 4]"
  by (simp add: numeral_eq_Suc AddMeshWithIndex_def touch_def new_PhysicalGroup_def GetKey_def
      Let_def GetMeshFaceIndices_def)

lemma AddFaces_loop_faces_wall:
  "GetMeshFaceIndices (AddFaces_loop (new_PhysicalGroup ''wall'') (MeshInstanceId 0 0) 5 7)
     (Some (MeshInstanceId 0 0)) = [5, 6, 7, 8, 9, 10, 11]"
  by (simp add: numeral_eq_Suc AddMeshWithIndex_def touch_def new_PhysicalGroup_def GetKey_def
      Let_def GetMeshFaceIndices_def)

lemma visible_group_export_settings [simp]:
  "isMeshVisible (group_export_settings chosen r) i"
  by (simp add: group_export_settings_def new_ExporterSettings_def)

lemma twelve_groups:
  "physicalGroups twelve_model
     = [AddFaces_loop (new_PhysicalGroup ''inlet'') (MeshInstanceId 0 0) 0 5,
        AddFaces_loop (new_PhysicalGroup ''wall'') (MeshInstanceId 0 0) 5 7]"
  by (simp add: twelve_model_def)

lemma GetName_AddFaces_loop: "GetName (AddFaces_loop g meshId i n) = GetName g"
  by (simp add: GetName_def AddFaces_loop_name)

lemma iges_slices:
  "iges_group_triangles 12 (Suc (Suc 0)) 0 = [0, 1, 2, 3, 4, 5]"
  "iges_group_triangles 12 (Suc (Suc 0)) (Suc 0) = [6, 7, 8, 9, 10, 11]"
  by code_simp+

lemma upt_12: "[0..<12] = [0, 1, 2, 3, 4, 5, 6, 7, 8, 9, 10, 11 :: nat]"
  by code_simp

text \<open>
  Claim C1, evaluated on the code. The model places one mesh of twelve triangles; group
  \<open>inlet\<close> records the faces 0 to 4 of the instance and group \<open>wall\<close> the faces 5 to 11.
  With both groups selected and no remainder, \<open>ExportPhysicalGroups\<close> writes two files,
  but each is the twelve-triangle test cube (684 bytes, triangle count 12), not the five
  and seven recorded faces; the IGES exporter assigns the index ranges 0 to 5 and 6 to 11,
  six triangles each. Neither reads the recorded membership.
\<close>

theorem ExportPhysicalGroups_writes_cubes:
  "ExportPhysicalGroups ops (new_ExporterModel twelve_model (group_export_settings [0, 1] False))
       Binary []
     = Inr [\<lparr>file_name = ''inlet.stl'', content = Some (cube_stl_bytes ops ''inlet'')\<rparr>,
            \<lparr>file_name = ''wall.stl'', content = Some (cube_stl_bytes ops ''wall'')\<rparr>]
   \<and> length (cube_stl_bytes ops ''inlet'') = 684
   \<and> length (cube_stl_bytes ops ''wall'') = 684
   \<and> read_le32 (take 4 (drop 80 (cube_stl_bytes ops ''inlet''))) = 12
   \<and> read_le32 (take 4 (drop 80 (cube_stl_bytes ops ''wall''))) = 12
   \<and> map (\<lambda>g. GetMeshFaceIndices g (Some (MeshInstanceId 0 0))) (physicalGroups twelve_model)
       = [[0, 1, 2, 3, 4], [5, 6, 7, 8, 9, 10, 11]]
   \<and> ExporterIges_physicalGroups twelve_model 12
       = [(''inlet'', [0, 1, 2, 3, 4, 5]), (''wall'', [6, 7, 8, 9, 10, 11])]"
proof -
  define s where "s = group_export_settings [0, 1] False"
  define chosen where "chosen = [0, 1 :: nat]"
  define gA where "gA = AddFaces_loop (new_PhysicalGroup ''inlet'') (MeshInstanceId 0 0) 0 5"
  define gB where "gB = AddFaces_loop (new_PhysicalGroup ''wall'') (MeshInstanceId 0 0) 5 7"
  define fA where "fA = \<lparr>file_name = ''inlet.stl'', content = Some (cube_stl_bytes ops ''inlet'')\<rparr>"
  define fB where "fB = \<lparr>file_name = ''wall.stl'', content = Some (cube_stl_bytes ops ''wall'')\<rparr>"
  have nA: "GetName gA = ''inlet''"
    by (simp add: gA_def GetName_def AddFaces_loop_name new_PhysicalGroup_def)
  have nB: "GetName gB = ''wall''"
    by (simp add: gB_def GetName_def AddFaces_loop_name new_PhysicalGroup_def)
  have groups: "physicalGroups twelve_model = [gA, gB]"
    by (simp add: twelve_groups gA_def gB_def)
  have z: "zip [0..<Suc (Suc 0)] [gA, gB] = [(0, gA), (Suc 0, gB)]"
    by simp
  have vis: "isMeshVisible s (MeshInstanceId 1 0)" by (simp add: s_def)
  have m0: "0 \<in> set chosen" and m1: "Suc 0 \<in> set chosen" by (simp_all add: chosen_def)
  have s1: "group_step ops s Binary True chosen True ([], 0, None) (0, gA) = Inr ([fA], Suc 0, None)"
    using group_step_binary [OF vis m0, of ops True "[]" 0 None gA]
    by (simp add: nA sanitize_inlet fA_def)
  have s2: "group_step ops s Binary True chosen True ([fA], Suc 0, None) (Suc 0, gB)
      = Inr ([fA, fB], Suc (Suc 0), None)"
    using group_step_binary [OF vis m1, of ops True "[fA]" "Suc 0" None gB]
    by (simp add: nB sanitize_wall fB_def)
  have gl: "group_loop ops s Binary True chosen True ([], 0, None) [(0, gA), (Suc 0, gB)]
      = Inr ([fA, fB], Suc (Suc 0), None)"
    by (simp only: group_loop.simps s1 s2 and_then_Inr)
  have st: "selectedGroups s = Some chosen" "exportSelectedOnly s = Some True"
    "exportRemainder s = Some False" "exportSeparateFiles s = Some True"
    by (simp_all add: s_def chosen_def group_export_settings_def)
  have ne: "[fA, fB] \<noteq> []" by simp
  have e: "ExportPhysicalGroups ops (new_ExporterModel twelve_model s) Binary [] = Inr [fA, fB]"
    unfolding ExportPhysicalGroups_def Let_def GetModel_def new_ExporterModel_def
    by (simp add: groups st export_unified_def del: upt_Suc zip_Cons_Cons)
       (simp only: z gl and_then_Inr, simp)
  have i: "ExporterIges_physicalGroups twelve_model 12
       = [(''inlet'', [0, 1, 2, 3, 4, 5]), (''wall'', [6, 7, 8, 9, 10, 11])]"
  proof -
    have len2: "length [gA, gB] = Suc (Suc 0)" by simp
    show ?thesis
      unfolding ExporterIges_physicalGroups_def Let_def groups len2 z upt_12
      by (simp add: nA nB iges_slices)
  qed
  from e i show ?thesis
    unfolding s_def fA_def fB_def
    by (simp add: length_cube_stl_bytes count_cube_stl_bytes twelve_groups
        AddFaces_loop_faces_inlet AddFaces_loop_faces_wall)
qed










lemma remainder_instances:
  "EnumerateMeshInstances two_mesh_remainder
     = [MeshInstance (MeshInstanceId 1 0) (Node 1 [] [0] []) (Some meshA),
        MeshInstance (MeshInstanceId 2 1) (Node 2 [] [1] []) (Some meshB)]"
  by (simp add: EnumerateMeshInstances_def two_mesh_remainder_def GetMesh_def array_get_def)







end
